theory Spec2Isabelle
  imports Main "HOL-Library.Sublist"
begin

section \<open>JavaScript strings\<close>

text \<open>
  A JavaScript string is a sequence of UTF-16 code units. The source's texts are mostly
  Chinese, so a string is modelled as the list of its code units (natural numbers; values
  from 65536 on never occur). \<open>asc\<close> embeds an ASCII literal; non-ASCII literals are
  written as lists of code units with the text in a comment.
\<close>

type_synonym jsstring = "nat list"

definition asc :: "string \<Rightarrow> jsstring" where
  "asc s = map of_char s"

text \<open>\<open>String.prototype.includes\<close>: the argument occurs as a contiguous substring.\<close>

definition str_includes :: "jsstring \<Rightarrow> jsstring \<Rightarrow> bool" where
  "str_includes s k = sublist k s"

text \<open>Decimal rendering of a non-negative integer, as a template literal renders it.\<close>

fun nat_to_string :: "nat \<Rightarrow> jsstring" where
  "nat_to_string n =
     (if n < 10 then [48 + n] else nat_to_string (n div 10) @ [48 + n mod 10])"

declare nat_to_string.simps [simp del]

section \<open>Retry executor: \<open>AIService.callAI\<close>\<close>

text \<open>
  The error object caught in \<open>callAI\<close>: an axios error carries an optional \<open>code\<close>, a
  \<open>message\<close> and, for an HTTP error status, a \<open>response\<close>. \<open>rdata\<close> is the response body
  as \<open>JSON.stringify\<close> renders it (the only use the source makes of it).
\<close>

record http_response =
  status :: nat
  rdata :: jsstring

record js_error =
  ecode :: "jsstring option"
  emessage :: "jsstring option"
  eresponse :: "http_response option"

text \<open>\<open>error.message || 'Unknown error'\<close>: a missing or empty message is falsy.\<close>

definition message_or :: "jsstring option \<Rightarrow> jsstring \<Rightarrow> jsstring" where
  "message_or m d = (case m of None \<Rightarrow> d | Some s \<Rightarrow> if s = [] then d else s)"

text \<open>\<open>error.message?.includes(k)\<close>: \<open>undefined\<close> (falsy) when there is no message.\<close>

definition message_includes :: "js_error \<Rightarrow> jsstring \<Rightarrow> bool" where
  "message_includes e k = (case emessage e of None \<Rightarrow> False | Some s \<Rightarrow> str_includes s k)"

definition code_is :: "js_error \<Rightarrow> string \<Rightarrow> bool" where
  "code_is e c = (ecode e = Some (asc c))"

text \<open>
  The message built in the catch block (lines 1098 to 1126). It is only logged; the retry
  decision does not read it.
\<close>

definition errorMessage :: "js_error \<Rightarrow> jsstring" where
  "errorMessage e =
     (case eresponse e of
        Some r \<Rightarrow>
          (if status r = 401 then
             \<comment> \<open>API key invalid or expired, check the Authorization header\<close>
             [65, 80, 73, 23494, 38053, 26080, 25928, 25110, 24050, 36807, 26399, 65292,
              35831, 26816, 26597, 65, 117, 116, 104, 111, 114, 105, 122, 97, 116, 105,
              111, 110, 22836, 37197, 32622]
           else if status r = 404 then
             \<comment> \<open>API endpoint does not exist, check the endpoint setting\<close>
             [65, 80, 73, 31471, 28857, 19981, 23384, 22312, 65292, 35831, 26816, 26597,
              101, 110, 100, 112, 111, 105, 110, 116, 37197, 32622]
           else if status r = 429 then
             \<comment> \<open>API rate limit exceeded, retry later\<close>
             [65, 80, 73, 35843, 29992, 39057, 29575, 36229, 38480, 65292, 35831, 31245,
              21518, 37325, 35797]
           else if status r \<ge> 500 then
             \<comment> \<open>API server error (status), retry later\<close>
             [65, 80, 73, 26381, 21153, 22120, 38169, 35823, 32, 40] @ nat_to_string (status r)
               @ [41, 65292, 35831, 31245, 21518, 37325, 35797]
           else
             \<comment> \<open>API request failed (status): data\<close>
             [65, 80, 73, 35831, 27714, 22833, 36133, 32, 40] @ nat_to_string (status r)
               @ [41, 58, 32] @ rdata r)
      | None \<Rightarrow>
          (if code_is e ''ECONNREFUSED'' \<or> code_is e ''ENOTFOUND'' then
             \<comment> \<open>cannot connect to the API server\<close>
             [26080, 27861, 36830, 25509, 21040, 65, 80, 73, 26381, 21153, 22120, 65292,
              35831, 26816, 26597, 101, 110, 100, 112, 111, 105, 110, 116, 22320, 22336,
              21644, 32593, 32476, 36830, 25509]
           else if code_is e ''ETIMEDOUT'' then
             \<comment> \<open>connection timed out\<close>
             [36830, 25509, 36229, 26102, 65292, 35831, 26816, 26597, 32593, 32476, 25110,
              22686, 21152, 36229, 26102, 26102, 38388]
           else if code_is e ''ECONNRESET'' then
             \<comment> \<open>connection was reset, retrying\<close>
             [32593, 32476, 36830, 25509, 34987, 37325, 32622, 65292, 21487, 33021, 26159,
              32593, 32476, 19981, 31283, 23450, 25110, 20195, 29702, 38382, 39064, 65292,
              27491, 22312, 37325, 35797, 46, 46, 46]
           else if code_is e ''EPIPE'' \<or> code_is e ''EPROTO'' then
             \<comment> \<open>TLS/SSL connection abnormal\<close>
             [84, 76, 83, 47, 83, 83, 76, 36830, 25509, 24322, 24120, 65292, 21487, 33021,
              26159, 32593, 32476, 29615, 22659, 38382, 39064]
           else if message_includes e (asc ''socket'') \<or> message_includes e (asc ''TLS'') then
             \<comment> \<open>network socket connection abnormal\<close>
             [32593, 32476, 115, 111, 99, 107, 101, 116, 36830, 25509, 24322, 24120, 65292,
              21487, 33021, 26159, 32593, 32476, 19981, 31283, 23450]
           else message_or (emessage e) (asc ''Unknown error'')))"

text \<open>Lines 1138 to 1140: the errors that get the longer base delay.\<close>

definition isNetworkError :: "js_error \<Rightarrow> bool" where
  "isNetworkError e \<longleftrightarrow>
     ecode e \<in> Some ` set (map asc [''ECONNRESET'', ''EPIPE'', ''EPROTO'', ''ETIMEDOUT'',
                                      ''ECONNREFUSED''])
     \<or> message_includes e (asc ''socket'')
     \<or> message_includes e (asc ''TLS'')"

text \<open>
  Lines 1143 and 1144. \<open>Math.pow(2, attempt - 1)\<close> is exact in binary64 for every exponent
  up to 1023 and is \<open>Infinity\<close> beyond, where \<open>Math.min\<close> returns 30000 as the model does.
\<close>

definition retryDelay :: "js_error \<Rightarrow> nat \<Rightarrow> nat" where
  "retryDelay e attempt =
     (let baseDelay = (if isNetworkError e then 3000 else 1000)
      in min (baseDelay * 2 ^ (attempt - 1)) 30000)"

text \<open>
  What an observer sees of one call: each request issued, each warning logged and each
  sleep, in order.
\<close>

datatype call_event = Attempt nat | Warn nat jsstring | Sleep nat

text \<open>
  The error \<open>callAI\<close> throws: a message and, for the aggregated error, the last underlying
  error in \<open>originalError\<close>.
\<close>

datatype thrown = Thrown jsstring "js_error option"

text \<open>
  The retry loop (lines 1064 to 1150). \<open>tryBody attempt\<close> is the outcome of the body of
  the \<open>try\<close> on the given attempt: the HTTP request followed by \<open>parseResponse\<close>; it either
  returns the parsed result or throws.
\<close>

function callAI_loop ::
  "(nat \<Rightarrow> js_error + 'r) \<Rightarrow> nat \<Rightarrow> nat \<Rightarrow> js_error option \<Rightarrow> call_event list
     \<Rightarrow> (js_error option + 'r) \<times> call_event list" where
  "callAI_loop tryBody retries attempt lastError tr =
     (if attempt \<le> retries then
        (case tryBody attempt of
           Inr parsed \<Rightarrow> (Inr parsed, tr @ [Attempt attempt])
         | Inl error \<Rightarrow>
             (let tr1 = tr @ [Attempt attempt, Warn attempt (errorMessage error)];
                  tr2 = (if attempt < retries
                         then tr1 @ [Sleep (retryDelay error attempt)] else tr1)
              in callAI_loop tryBody retries (attempt + 1) (Some error) tr2))
      else (Inl lastError, tr))"
  by pat_completeness auto
termination
  by (relation "measure (\<lambda>(tryBody, retries, attempt, lastError, tr). Suc retries - attempt)")
     auto

declare callAI_loop.simps [simp del]

text \<open>
  \<open>callAI\<close> (lines 989 to 1155). \<open>endpoint\<close> is \<open>config.endpoint\<close>; a missing or empty
  endpoint is a configuration error thrown before any request.
\<close>

definition callAI ::
  "jsstring option \<Rightarrow> nat \<Rightarrow> (nat \<Rightarrow> js_error + 'r) \<Rightarrow> (thrown + 'r) \<times> call_event list" where
  "callAI endpoint retries tryBody =
     (if endpoint = None \<or> endpoint = Some [] then
        (Inl (Thrown (asc ''AI API endpoint not configured'') None), [])
      else
        (case callAI_loop tryBody retries 1 None [] of
           (Inr parsed, tr) \<Rightarrow> (Inr parsed, tr)
         | (Inl lastError, tr) \<Rightarrow>
             \<comment> \<open>AI API call failed (retried n times): last message\<close>
             (Inl (Thrown
                ([65, 73, 32, 65, 80, 73, 35843, 29992, 22833, 36133, 65288, 24050, 37325,
                  35797] @ nat_to_string retries @ [27425, 65289, 58, 32]
                 @ message_or (case lastError of None \<Rightarrow> None | Some e \<Rightarrow> emessage e)
                     (asc ''Unknown error''))
                lastError), tr)))"

subsection \<open>The backoff schedule as the specification words it\<close>

text \<open>
  Connection-class failures: connection reset, pipe or protocol error, timeout, connection
  refused, or a message that mentions a socket or TLS.
\<close>

definition connection_class :: "js_error \<Rightarrow> bool" where
  "connection_class e \<longleftrightarrow>
     code_is e ''ECONNRESET'' \<or> code_is e ''EPIPE'' \<or> code_is e ''EPROTO''
     \<or> code_is e ''ETIMEDOUT'' \<or> code_is e ''ECONNREFUSED''
     \<or> message_includes e (asc ''socket'') \<or> message_includes e (asc ''TLS'')"

text \<open>
  What a failed attempt \<open>i\<close> that is not the last one leaves in the trace: the request,
  the warning, and a sleep of \<open>min (base * 2^(i-1)) 30000\<close> milliseconds.
\<close>

definition failed_attempt :: "(nat \<Rightarrow> js_error) \<Rightarrow> nat \<Rightarrow> call_event list" where
  "failed_attempt errs i =
     [Attempt i, Warn i (errorMessage (errs i)),
      Sleep (min ((if connection_class (errs i) then 3000 else 1000) * 2 ^ (i - 1)) 30000)]"

text \<open>
  A sample run: the first attempt ends in a connection reset, every later one in an
  HTTP 503.
\<close>

definition reset_then_plain :: "nat \<Rightarrow> js_error" where
  "reset_then_plain i =
     (if i = 1 then
        \<lparr>ecode = Some (asc ''ECONNRESET''), emessage = Some (asc ''read ECONNRESET''),
         eresponse = None\<rparr>
      else
        \<lparr>ecode = None, emessage = Some (asc ''boom''),
         eresponse = Some \<lparr>status = 503, rdata = asc ''{}''\<rparr>\<rparr>)"

section \<open>Token estimator: \<open>AIService.estimateTokenCount\<close>\<close>

text \<open>
  The number of matches of a global regex \<open>/[class]+/g\<close>: the maximal runs of characters
  of the class.
\<close>

fun count_runs :: "('a \<Rightarrow> bool) \<Rightarrow> 'a list \<Rightarrow> nat" where
  "count_runs P [] = 0"
| "count_runs P [x] = (if P x then 1 else 0)"
| "count_runs P (x # y # xs) = (if P x \<and> \<not> P y then 1 else 0) + count_runs P (y # xs)"

definition is_cjk :: "nat \<Rightarrow> bool" where
  "is_cjk c \<longleftrightarrow> 0x4e00 \<le> c \<and> c \<le> 0x9fa5"

definition is_ascii_letter :: "nat \<Rightarrow> bool" where
  "is_ascii_letter c \<longleftrightarrow> (97 \<le> c \<and> c \<le> 122) \<or> (65 \<le> c \<and> c \<le> 90)"

definition is_digit :: "nat \<Rightarrow> bool" where
  "is_digit c \<longleftrightarrow> 48 \<le> c \<and> c \<le> 57"

text \<open>
  Lines 351 to 358: \<open>Math.ceil(chineseChars / 1.5 + englishWords + numbers)\<close>. The three
  counts are integers, so the ceiling is that of \<open>2 * chineseChars / 3\<close> plus the other
  two counts (binary64 agrees with the exact value far beyond any string length).
\<close>

definition estimateTokenCount :: "jsstring \<Rightarrow> nat" where
  "estimateTokenCount text =
     (if text = [] then 0
      else
        (let chineseChars = length (filter is_cjk text);
             englishWords = count_runs is_ascii_letter text;
             numbers = count_runs is_digit text
         in (2 * chineseChars + 2) div 3 + englishWords + numbers))"

section \<open>Lorebook engine: \<open>AIService.getTriggeredLoreEntries\<close>\<close>

datatype lore_category = Entity | Event | Rule | Relationship | World

text \<open>
  \<open>LorebookEntry\<close> (lines 30 to 39). The two optional numbers are \<open>None\<close> when the
  property is \<open>undefined\<close>.
\<close>

record LorebookEntry =
  lore_id :: jsstring
  "keywords" :: "jsstring list"
  lore_content :: jsstring
  priority :: int
  enabled :: bool
  category :: lore_category
  maxActivations :: "int option"
  activationCount :: "int option"

text \<open>\<open>entry.activationCount || 0\<close>\<close>

definition activations :: "LorebookEntry \<Rightarrow> int" where
  "activations e = (case activationCount e of None \<Rightarrow> 0 | Some c \<Rightarrow> c)"

text \<open>
  Line 528: \<open>entry.maxActivations && (entry.activationCount || 0) >= entry.maxActivations\<close>.
  The left operand is falsy when the property is \<open>undefined\<close> and also when it is \<open>0\<close>.
\<close>

definition limitReached :: "LorebookEntry \<Rightarrow> bool" where
  "limitReached e =
     (case maxActivations e of
        None \<Rightarrow> False
      | Some m \<Rightarrow> m \<noteq> 0 \<and> activations e \<ge> m)"

text \<open>Lines 522 to 524: \<open>entry.keywords.some(keyword => promptContent.includes(keyword))\<close>\<close>

definition isTriggered :: "jsstring \<Rightarrow> LorebookEntry \<Rightarrow> bool" where
  "isTriggered promptContent e = list_ex (\<lambda>keyword. str_includes promptContent keyword) (keywords e)"

text \<open>
  The first loop (lines 518 to 534). It returns \<open>triggeredEntries\<close> and the entries of the
  cache after the loop; a triggered entry is the same object in both, so it shows the
  incremented count in both.
\<close>

fun scanEntries :: "jsstring \<Rightarrow> LorebookEntry list \<Rightarrow> LorebookEntry list \<times> LorebookEntry list" where
  "scanEntries promptContent [] = ([], [])"
| "scanEntries promptContent (e # es) =
     (let (triggeredEntries, es') = scanEntries promptContent es
      in if \<not> enabled e then (triggeredEntries, e # es')
         else if isTriggered promptContent e then
           (if limitReached e then (triggeredEntries, e # es')
            else
              (let e' = e\<lparr>activationCount := Some (activations e + 1)\<rparr>
               in (e' # triggeredEntries, e' # es')))
         else (triggeredEntries, e # es'))"

text \<open>
  The second loop (lines 547 to 554): contents are appended in order until the next one
  would pass \<open>maxTokens\<close>.
\<close>

fun buildLoreContent :: "nat \<Rightarrow> LorebookEntry list \<Rightarrow> jsstring \<Rightarrow> nat \<Rightarrow> jsstring" where
  "buildLoreContent maxTokens [] loreContent currentTokens = loreContent"
| "buildLoreContent maxTokens (e # es) loreContent currentTokens =
     (let entryTokens = estimateTokenCount (lore_content e)
      in if currentTokens + entryTokens > maxTokens then loreContent
         else buildLoreContent maxTokens es (loreContent @ [10] @ lore_content e @ [10])
                (currentTokens + entryTokens))"

text \<open>The heading of the injected block: a bracketed "Lorebook background knowledge" line.\<close>

definition loreHeader :: jsstring where
  "loreHeader = [12304, 76, 111, 114, 101, 98, 111, 111, 107, 32, 32972, 26223, 30693, 35782,
                 12305, 10]"

text \<open>
  \<open>getTriggeredLoreEntries\<close> (lines 505 to 563) over the per-session cache. The sort is
  \<open>Array.prototype.sort\<close> with \<open>b.priority - a.priority\<close>: stable, by descending priority.
\<close>

definition getTriggeredLoreEntries ::
  "(jsstring \<rightharpoonup> LorebookEntry list) \<Rightarrow> jsstring \<Rightarrow> jsstring \<Rightarrow> nat
     \<Rightarrow> jsstring \<times> (jsstring \<rightharpoonup> LorebookEntry list)" where
  "getTriggeredLoreEntries lorebookCache sessionId promptContent maxTokens =
     (case lorebookCache sessionId of
        None \<Rightarrow> ([], lorebookCache)
      | Some entries \<Rightarrow>
          if entries = [] then ([], lorebookCache)
          else
            (let (triggeredEntries, entries') = scanEntries promptContent entries;
                 lorebookCache' = lorebookCache(sessionId \<mapsto> entries')
             in if triggeredEntries = [] then ([], lorebookCache')
                else
                  (buildLoreContent maxTokens
                     (sort_key (\<lambda>e. - priority e) triggeredEntries)
                     loreHeader (estimateTokenCount loreHeader),
                   lorebookCache')))"

subsection \<open>The trigger rule as the specification words it\<close>

text \<open>
  The rule of the specification: the entry is enabled, one of its keywords is a substring
  of the prompt, and a set \<open>maxActivations\<close> has not been reached.
\<close>

definition fires_as_specified :: "jsstring \<Rightarrow> LorebookEntry \<Rightarrow> bool" where
  "fires_as_specified promptContent e \<longleftrightarrow>
     enabled e
     \<and> (\<exists>keyword \<in> set (keywords e). sublist keyword promptContent)
     \<and> (case maxActivations e of None \<Rightarrow> True | Some m \<Rightarrow> activations e < m)"

text \<open>The rule the code follows: a \<open>maxActivations\<close> of zero sets no limit.\<close>

definition fires :: "jsstring \<Rightarrow> LorebookEntry \<Rightarrow> bool" where
  "fires promptContent e \<longleftrightarrow>
     enabled e
     \<and> (\<exists>keyword \<in> set (keywords e). sublist keyword promptContent)
     \<and> (case maxActivations e of None \<Rightarrow> True | Some m \<Rightarrow> m = 0 \<or> activations e < m)"

definition activate :: "LorebookEntry \<Rightarrow> LorebookEntry" where
  "activate e = e\<lparr>activationCount := Some (activations e + 1)\<rparr>"

text \<open>A sample entry whose limit is set to zero, and one limited to two activations.\<close>

definition zero_limit_entry :: LorebookEntry where
  "zero_limit_entry =
     \<lparr>lore_id = asc ''entity_A'', keywords = [asc ''Acme''], lore_content = asc ''Acme file'',
      priority = 100, enabled = True, category = Entity,
      maxActivations = Some 0, activationCount = None\<rparr>"

definition twice_entry :: LorebookEntry where
  "twice_entry =
     \<lparr>lore_id = asc ''story_0'', keywords = [asc ''harbour'', asc ''Acme''],
      lore_content = asc ''The harbour'', priority = 50, enabled = True, category = World,
      maxActivations = Some 2, activationCount = Some 1\<rparr>"

section \<open>JavaScript values\<close>

text \<open>
  A Number is an IEEE binary64 value. \<open>Finite neg m u\<close> is \<open>m * 2^u\<close> with the sign
  \<open>neg\<close>; the values \<open>JSON.parse\<close> produces are in canonical form (\<open>m < 2^53\<close>, and
  \<open>2^52 \<le> m\<close> unless \<open>u = -1074\<close>). \<open>NaN\<close> never comes out of \<open>JSON.parse\<close> and is
  not modelled.
\<close>

datatype jsnum = Finite bool nat int | Infinite bool

text \<open>
  The values that \<open>JSON.parse\<close> builds, and \<open>undefined\<close>. An object is the list of its
  members in source order; a repeated key keeps its last value.
\<close>

datatype jsval =
    JUndefined
  | JNull
  | JBool bool
  | JNum jsnum
  | JStr jsstring
  | JArr "jsval list"
  | JObj "(jsstring \<times> jsval) list"

datatype js_exn = TypeError | SyntaxError

subsection \<open>Decimal to binary64, and back\<close>

fun bitlen_nat :: "nat \<Rightarrow> nat" where
  "bitlen_nat n = (if n = 0 then 0 else Suc (bitlen_nat (n div 2)))"

declare bitlen_nat.simps [simp del]

text \<open>A positive rational \<open>N / D\<close> scaled by a power of a base with an integer exponent.\<close>

definition scale_frac :: "nat \<Rightarrow> nat \<times> nat \<Rightarrow> int \<Rightarrow> nat \<times> nat" where
  "scale_frac b f x =
     (case f of (N, D) \<Rightarrow> if x \<ge> 0 then (N * b ^ nat x, D) else (N, D * b ^ nat (- x)))"

text \<open>\<open>frac_ge f b x\<close>: the fraction is at least \<open>b^x\<close>.\<close>

definition frac_ge :: "nat \<times> nat \<Rightarrow> nat \<Rightarrow> int \<Rightarrow> bool" where
  "frac_ge f b x = (case scale_frac b f (- x) of (N, D) \<Rightarrow> N \<ge> D)"

text \<open>
  Round a positive rational to the nearest binary64, ties to even: the significand has
  53 bits, or fewer below the smallest normal number, and a result of \<open>2^1024\<close> or more
  is \<open>Infinity\<close>.
\<close>

definition round_to_double :: "bool \<Rightarrow> nat \<times> nat \<Rightarrow> jsnum" where
  "round_to_double neg f =
     (case f of (N, D) \<Rightarrow>
        if N = 0 then Finite neg 0 0
        else
          (let e0 = int (bitlen_nat N) - int (bitlen_nat D);
               e = (if frac_ge f 2 e0 then e0 else e0 - 1);
               u = max (e - 52) (- 1074);
               (num, den) = scale_frac 2 f (- u);
               q = num div den;
               r = num mod den;
               m = (if 2 * r > den \<or> (2 * r = den \<and> odd q) then q + 1 else q);
               (m', u') = (if m = 2 ^ 53 then (2 ^ 52, u + 1) else (m, u))
           in if m' = 0 then Finite neg 0 0
              else if u' > 971 then Infinite neg
              else Finite neg m' u'))"

text \<open>
  \<open>Number::toString\<close> (radix 10): the shortest decimal \<open>s * 10^(n-k)\<close> with \<open>k\<close> digits
  that rounds back to the value, the closest one when there are two.
\<close>

definition shortest_at :: "nat \<Rightarrow> int \<Rightarrow> nat \<times> nat \<Rightarrow> int \<Rightarrow> nat option" where
  "shortest_at m u f x =
     (case scale_frac 10 f (- x) of (num, den) \<Rightarrow>
        (let lo = num div den;
             r = num mod den;
             hi = lo + 1;
             ok_lo = (round_to_double False (scale_frac 10 (lo, 1) x) = Finite False m u);
             ok_hi = (round_to_double False (scale_frac 10 (hi, 1) x) = Finite False m u)
         in if ok_lo \<and> ok_hi then
              Some (if 2 * r < den then lo else if 2 * r > den then hi
                    else if even lo then lo else hi)
            else if ok_lo then Some lo
            else if ok_hi then Some hi
            else None))"

fun shortest_digits :: "nat \<Rightarrow> nat \<Rightarrow> int \<Rightarrow> nat \<times> nat \<Rightarrow> int \<Rightarrow> nat \<Rightarrow> nat \<times> int" where
  "shortest_digits 0 m u f n0 k = (m, u)"
| "shortest_digits (Suc fuel) m u f n0 k =
     (case shortest_at m u f (n0 - int k) of
        Some s \<Rightarrow> (s, n0 - int k)
      | None \<Rightarrow> shortest_digits fuel m u f n0 (Suc k))"

definition strip_zeros :: "jsstring \<Rightarrow> jsstring" where
  "strip_zeros ds = rev (dropWhile (\<lambda>c. c = 48) (rev ds))"

definition format_decimal :: "jsstring \<Rightarrow> int \<Rightarrow> jsstring" where
  "format_decimal ds n =
     (let k = int (length ds)
      in if k \<le> n \<and> n \<le> 21 then ds @ replicate (nat (n - k)) 48
         else if 0 < n \<and> n \<le> 21 then take (nat n) ds @ [46] @ drop (nat n) ds
         else if - 6 < n \<and> n \<le> 0 then [48, 46] @ replicate (nat (- n)) 48 @ ds
         else
           (let e = n - 1;
                es = (if e < 0 then [45] else [43]) @ nat_to_string (nat \<bar>e\<bar>)
            in if k = 1 then ds @ [101] @ es
               else take 1 ds @ [46] @ drop 1 ds @ [101] @ es))"

definition number_to_string :: "jsnum \<Rightarrow> jsstring" where
  "number_to_string x =
     (case x of
        Infinite neg \<Rightarrow> (if neg then [45] else []) @ asc ''Infinity''
      | Finite neg m u \<Rightarrow>
          if m = 0 then [48]
          else
            (let f = scale_frac 2 (m, 1) u;
                 t = int (length (nat_to_string (fst f))) - int (length (nat_to_string (snd f)));
                 n0 = (if frac_ge f 10 t then t + 1 else t);
                 (s, x) = shortest_digits 17 m u f n0 1;
                 ds = nat_to_string s
             in (if neg then [45] else [])
                @ format_decimal (strip_zeros ds) (int (length ds) + x)))"

subsection \<open>Truthiness, property access, conversion to string\<close>

definition truthy :: "jsval \<Rightarrow> bool" where
  "truthy v =
     (case v of
        JUndefined \<Rightarrow> False
      | JNull \<Rightarrow> False
      | JBool b \<Rightarrow> b
      | JNum x \<Rightarrow> (case x of Finite neg m u \<Rightarrow> m \<noteq> 0 | Infinite neg \<Rightarrow> True)
      | JStr s \<Rightarrow> s \<noteq> []
      | JArr xs \<Rightarrow> True
      | JObj ms \<Rightarrow> True)"

text \<open>The own property of an object: the last member with the key.\<close>

definition own_property :: "(jsstring \<times> jsval) list \<Rightarrow> jsstring \<Rightarrow> jsval option" where
  "own_property ms k = map_of (rev ms) k"

text \<open>
  \<open>v.name\<close> for the property names the source reads (none of them is defined on a
  prototype): a \<open>TypeError\<close> on \<open>null\<close> and \<open>undefined\<close>, the own property of an object,
  \<open>undefined\<close> on anything else.
\<close>

definition get_prop :: "jsval \<Rightarrow> string \<Rightarrow> js_exn + jsval" where
  "get_prop v name =
     (case v of
        JUndefined \<Rightarrow> Inl TypeError
      | JNull \<Rightarrow> Inl TypeError
      | JObj ms \<Rightarrow> Inr (case own_property ms (asc name) of None \<Rightarrow> JUndefined | Some x \<Rightarrow> x)
      | _ \<Rightarrow> Inr JUndefined)"

definition is_array :: "jsval \<Rightarrow> bool" where
  "is_array v = (case v of JArr xs \<Rightarrow> True | _ \<Rightarrow> False)"

text \<open>\<open>typeof v === 'object'\<close>: objects, arrays and \<open>null\<close>.\<close>

definition typeof_object :: "jsval \<Rightarrow> bool" where
  "typeof_object v = (case v of JObj ms \<Rightarrow> True | JArr xs \<Rightarrow> True | JNull \<Rightarrow> True | _ \<Rightarrow> False)"

fun intersperse :: "'a list \<Rightarrow> 'a list list \<Rightarrow> 'a list" where
  "intersperse sep [] = []"
| "intersperse sep [x] = x"
| "intersperse sep (x # y # ys) = x @ sep @ intersperse sep (y # ys)"

text \<open>
  \<open>ToString\<close> of a value, and \<open>Array.prototype.join\<close>, which renders \<open>null\<close> and
  \<open>undefined\<close> elements as the empty string. An array converts by joining with a comma.
  A plain object converts to \<open>[object Object]\<close>, unless it has an own \<open>toString\<close>
  member: a value from JSON is not callable, and the conversion throws a \<open>TypeError\<close>.
\<close>

fun to_string :: "jsval \<Rightarrow> js_exn + jsstring"
  and join_elements :: "jsval list \<Rightarrow> js_exn + jsstring list" where
  "to_string JUndefined = Inr (asc ''undefined'')"
| "to_string JNull = Inr (asc ''null'')"
| "to_string (JBool b) = Inr (if b then asc ''true'' else asc ''false'')"
| "to_string (JNum x) = Inr (number_to_string x)"
| "to_string (JStr s) = Inr s"
| "to_string (JArr xs) =
     (case join_elements xs of Inl e \<Rightarrow> Inl e | Inr ss \<Rightarrow> Inr (intersperse [44] ss))"
| "to_string (JObj ms) =
     (if own_property ms (asc ''toString'') \<noteq> None then Inl TypeError
      else Inr (asc ''[object Object]''))"
| "join_elements [] = Inr []"
| "join_elements (x # xs) =
     (case (if x = JUndefined \<or> x = JNull then Inr [] else to_string x) of
        Inl e \<Rightarrow> Inl e
      | Inr s \<Rightarrow> (case join_elements xs of Inl e \<Rightarrow> Inl e | Inr ss \<Rightarrow> Inr (s # ss)))"

definition array_join :: "jsval list \<Rightarrow> jsstring \<Rightarrow> js_exn + jsstring" where
  "array_join xs sep =
     (case join_elements xs of Inl e \<Rightarrow> Inl e | Inr ss \<Rightarrow> Inr (intersperse sep ss))"

section \<open>\<open>JSON.parse\<close>\<close>

text \<open>
  The JSON grammar of ECMA-262: white space is tab, line feed, carriage return and space;
  a string has no raw control character and knows the escapes
  \<open>\" \\ \/ \b \f \n \r \t \uXXXX\<close>; a number is \<open>-? int frac? exp?\<close> without leading
  zeros. The result is \<open>None\<close> where \<open>JSON.parse\<close> throws a \<open>SyntaxError\<close>.
\<close>

definition is_json_ws :: "nat \<Rightarrow> bool" where
  "is_json_ws c \<longleftrightarrow> c = 9 \<or> c = 10 \<or> c = 13 \<or> c = 32"

definition skip_ws :: "jsstring \<Rightarrow> jsstring" where
  "skip_ws s = dropWhile is_json_ws s"

definition hex_value :: "nat \<Rightarrow> nat option" where
  "hex_value c =
     (if 48 \<le> c \<and> c \<le> 57 then Some (c - 48)
      else if 97 \<le> c \<and> c \<le> 102 then Some (c - 87)
      else if 65 \<le> c \<and> c \<le> 70 then Some (c - 55)
      else None)"

definition simple_escape :: "nat \<Rightarrow> nat option" where
  "simple_escape c =
     (if c = 34 then Some 34 else if c = 92 then Some 92 else if c = 47 then Some 47
      else if c = 98 then Some 8 else if c = 102 then Some 12 else if c = 110 then Some 10
      else if c = 114 then Some 13 else if c = 116 then Some 9 else None)"

text \<open>The characters after an opening quote, up to the closing one.\<close>

fun parse_string :: "jsstring \<Rightarrow> jsstring \<Rightarrow> (jsstring \<times> jsstring) option" where
  "parse_string [] acc = None"
| "parse_string (c # cs) acc =
     (if c = 34 then Some (rev acc, cs)
      else if c = 92 then
        (case cs of
           [] \<Rightarrow> None
         | e # es \<Rightarrow>
             if e = 117 then
               (case es of
                  a # b # c # d # rest \<Rightarrow>
                    (case (hex_value a, hex_value b, hex_value c, hex_value d) of
                       (Some h1, Some h2, Some h3, Some h4) \<Rightarrow>
                         parse_string rest ((((h1 * 16 + h2) * 16 + h3) * 16 + h4) # acc)
                     | _ \<Rightarrow> None)
                | _ \<Rightarrow> None)
             else
               (case simple_escape e of
                  None \<Rightarrow> None
                | Some x \<Rightarrow> parse_string es (x # acc)))
      else if c < 32 then None
      else parse_string cs (c # acc))"

definition digits_value :: "jsstring \<Rightarrow> nat" where
  "digits_value ds = foldl (\<lambda>n c. 10 * n + (c - 48)) 0 ds"

text \<open>
  A number token at the head of the input: its sign, its digits read as one integer and
  the decimal exponent that goes with them.
\<close>

definition parse_number :: "jsstring \<Rightarrow> (jsnum \<times> jsstring) option" where
  "parse_number s =
     (let (neg, s1) = (case s of c # cs \<Rightarrow> if c = 45 then (True, cs) else (False, s)
                               | [] \<Rightarrow> (False, s));
          ip = (case s1 of c # cs \<Rightarrow> if c = 48 then [48] else takeWhile is_digit s1
                         | [] \<Rightarrow> []);
          s2 = drop (length ip) s1;
          (fp, s3) = (case s2 of
                        c # cs \<Rightarrow> if c = 46 then (Some (takeWhile is_digit cs),
                                                   dropWhile is_digit cs)
                                  else (None, s2)
                      | [] \<Rightarrow> (None, s2));
          (ex, s4) = (case s3 of
                        c # cs \<Rightarrow>
                          if c = 101 \<or> c = 69 then
                            (let (eneg, s') =
                               (case cs of d # ds \<Rightarrow> if d = 45 then (True, ds)
                                                       else if d = 43 then (False, ds)
                                                       else (False, cs)
                                         | [] \<Rightarrow> (False, cs))
                             in (Some (eneg, takeWhile is_digit s'), dropWhile is_digit s'))
                          else (None, s3)
                      | [] \<Rightarrow> (None, s3))
      in if ip = [] \<or> fp = Some [] \<or> (case ex of Some (eneg, ds) \<Rightarrow> ds = [] | None \<Rightarrow> False)
         then None
         else
           (let fds = (case fp of None \<Rightarrow> [] | Some ds \<Rightarrow> ds);
                e = (case ex of None \<Rightarrow> 0
                     | Some (eneg, ds) \<Rightarrow>
                         if eneg then - int (digits_value ds) else int (digits_value ds))
            in Some (round_to_double neg
                       (scale_frac 10 (digits_value (ip @ fds), 1) (e - int (length fds))),
                     s4)))"

text \<open>
  The recursive descent over values, array elements and object members. The first
  argument bounds the number of calls; every call consumes a character first, so
  \<open>JSON_parse\<close> below starts with enough and never runs out.
\<close>

fun parse_value :: "nat \<Rightarrow> jsstring \<Rightarrow> (jsval \<times> jsstring) option"
  and parse_elements :: "nat \<Rightarrow> jsstring \<Rightarrow> jsval list \<Rightarrow> (jsval list \<times> jsstring) option"
  and parse_members ::
    "nat \<Rightarrow> jsstring \<Rightarrow> (jsstring \<times> jsval) list
       \<Rightarrow> ((jsstring \<times> jsval) list \<times> jsstring) option" where
  "parse_value 0 s = None"
| "parse_value (Suc f) s =
     (case s of
        [] \<Rightarrow> None
      | c # cs \<Rightarrow>
          if c = 123 then
            (case skip_ws cs of
               [] \<Rightarrow> None
             | d # ds \<Rightarrow>
                 if d = 125 then Some (JObj [], ds)
                 else map_option (\<lambda>(ms, r). (JObj ms, r)) (parse_members f (d # ds) []))
          else if c = 91 then
            (case skip_ws cs of
               [] \<Rightarrow> None
             | d # ds \<Rightarrow>
                 if d = 93 then Some (JArr [], ds)
                 else map_option (\<lambda>(xs, r). (JArr xs, r)) (parse_elements f (d # ds) []))
          else if c = 34 then map_option (\<lambda>(str, r). (JStr str, r)) (parse_string cs [])
          else if take 4 s = asc ''true'' then Some (JBool True, drop 4 s)
          else if take 5 s = asc ''false'' then Some (JBool False, drop 5 s)
          else if take 4 s = asc ''null'' then Some (JNull, drop 4 s)
          else map_option (\<lambda>(x, r). (JNum x, r)) (parse_number s))"
| "parse_elements 0 s acc = None"
| "parse_elements (Suc f) s acc =
     (case parse_value f s of
        None \<Rightarrow> None
      | Some (v, r) \<Rightarrow>
          (case skip_ws r of
             [] \<Rightarrow> None
           | c # cs \<Rightarrow>
               if c = 44 then parse_elements f (skip_ws cs) (acc @ [v])
               else if c = 93 then Some (acc @ [v], cs)
               else None))"
| "parse_members 0 s acc = None"
| "parse_members (Suc f) s acc =
     (case s of
        [] \<Rightarrow> None
      | q # qs \<Rightarrow>
          if q \<noteq> 34 then None
          else
            (case parse_string qs [] of
               None \<Rightarrow> None
             | Some (k, r) \<Rightarrow>
                 (case skip_ws r of
                    [] \<Rightarrow> None
                  | c # cs \<Rightarrow>
                      if c \<noteq> 58 then None
                      else
                        (case parse_value f (skip_ws cs) of
                           None \<Rightarrow> None
                         | Some (v, r') \<Rightarrow>
                             (case skip_ws r' of
                                [] \<Rightarrow> None
                              | d # ds \<Rightarrow>
                                  if d = 44 then parse_members f (skip_ws ds) (acc @ [(k, v)])
                                  else if d = 125 then Some (acc @ [(k, v)], ds)
                                  else None)))))"

definition JSON_parse :: "jsstring \<Rightarrow> js_exn + jsval" where
  "JSON_parse text =
     (case parse_value (2 * length text + 1) (skip_ws text) of
        None \<Rightarrow> Inl SyntaxError
      | Some (v, r) \<Rightarrow> if skip_ws r = [] then Inr v else Inl SyntaxError)"

section \<open>Regular expressions of the source\<close>

text \<open>
  \<open>\s\<close> of a JavaScript regular expression, which is also what \<open>String.prototype.trim\<close>
  strips: white space and line terminators.
\<close>

definition is_js_space :: "nat \<Rightarrow> bool" where
  "is_js_space c \<longleftrightarrow>
     (9 \<le> c \<and> c \<le> 13) \<or> c = 32 \<or> c = 0xa0 \<or> c = 0x1680 \<or> (0x2000 \<le> c \<and> c \<le> 0x200a)
     \<or> c = 0x2028 \<or> c = 0x2029 \<or> c = 0x202f \<or> c = 0x205f \<or> c = 0x3000 \<or> c = 0xfeff"

definition trim :: "jsstring \<Rightarrow> jsstring" where
  "trim s = rev (dropWhile is_js_space (rev (dropWhile is_js_space s)))"

definition fence :: jsstring where
  "fence = [96, 96, 96]"

text \<open>\<open>([\s\S]*?)```\<close>: the text before the first closing fence.\<close>

fun until_fence :: "jsstring \<Rightarrow> jsstring option" where
  "until_fence [] = None"
| "until_fence (c # cs) =
     (if prefix fence (c # cs) then Some []
      else map_option (\<lambda>r. c # r) (until_fence cs))"

text \<open>Under the flag \<open>i\<close> an ASCII letter matches in either case.\<close>

definition lower_ascii :: "nat \<Rightarrow> nat" where
  "lower_ascii c = (if 65 \<le> c \<and> c \<le> 90 then c + 32 else c)"

text \<open>
  \<open>content.match(/```json\s*([\s\S]*?)```/i)\<close>: the first capture group of the leftmost
  match, \<open>None\<close> when there is no match. At each start the greedy \<open>\s*\<close> takes all the
  white space (giving some back cannot help: a fence does not start with white space),
  and the lazy group stops at the first closing fence.
\<close>

fun match_json_fence :: "jsstring \<Rightarrow> jsstring option" where
  "match_json_fence [] = None"
| "match_json_fence (c # cs) =
     (if map lower_ascii (take 7 (c # cs)) = fence @ asc ''json'' then
        (case until_fence (dropWhile is_js_space (drop 7 (c # cs))) of
           Some cap \<Rightarrow> Some cap
         | None \<Rightarrow> match_json_fence cs)
      else match_json_fence cs)"

text \<open>\<open>content.match(/```\s*([\s\S]*?)```/)\<close>\<close>

fun match_fence :: "jsstring \<Rightarrow> jsstring option" where
  "match_fence [] = None"
| "match_fence (c # cs) =
     (if take 3 (c # cs) = fence then
        (case until_fence (dropWhile is_js_space (drop 3 (c # cs))) of
           Some cap \<Rightarrow> Some cap
         | None \<Rightarrow> match_fence cs)
      else match_fence cs)"

text \<open>
  \<open>content.match(/(\{[\s\S]*\})/)\<close>: from the first opening brace to the last closing
  brace after it.
\<close>

definition match_braces :: "jsstring \<Rightarrow> jsstring option" where
  "match_braces s =
     (let body = rev (dropWhile (\<lambda>c. c \<noteq> 125) (rev (dropWhile (\<lambda>c. c \<noteq> 123) s)))
      in if body = [] then None else Some body)"

text \<open>
  The round-number pattern of \<open>summarizeRound\<close> (line 323): the character U+7B2C, white
  space, the captured digits, white space, the characters U+56DE U+5408 ("round number
  ..."). The result is the capture at the leftmost place where the pattern fits.
\<close>

fun match_round :: "jsstring \<Rightarrow> jsstring option" where
  "match_round [] = None"
| "match_round (c # cs) =
     (let rest = dropWhile is_js_space cs;
          ds = takeWhile is_digit rest
      in if c = 31532 \<and> ds \<noteq> []
            \<and> prefix [22238, 21512] (dropWhile is_js_space (dropWhile is_digit rest))
         then Some ds
         else match_round cs)"

section \<open>Response extractor: \<open>AIService.parseNarrativeResponse\<close>\<close>

text \<open>The Number of a small non-negative integer, such as an array index.\<close>

definition num_of_nat :: "nat \<Rightarrow> jsnum" where
  "num_of_nat n = round_to_double False (n, 1)"

text \<open>
  \<open>{ ...v }\<close>: the own enumerable properties of a value spread into an object literal.
  An array and a string contribute their indices.
\<close>

definition spread_members :: "jsval \<Rightarrow> (jsstring \<times> jsval) list" where
  "spread_members v =
     (case v of
        JObj ms \<Rightarrow> ms
      | JArr xs \<Rightarrow> zip (map nat_to_string [0..<length xs]) xs
      | JStr s \<Rightarrow> zip (map nat_to_string [0..<length s]) (map (\<lambda>c. JStr [c]) s)
      | _ \<Rightarrow> [])"

fun map_exn :: "('a \<Rightarrow> js_exn + 'b) \<Rightarrow> 'a list \<Rightarrow> js_exn + 'b list" where
  "map_exn f [] = Inr []"
| "map_exn f (x # xs) =
     (case f x of
        Inl e \<Rightarrow> Inl e
      | Inr y \<Rightarrow> (case map_exn f xs of Inl e \<Rightarrow> Inl e | Inr ys \<Rightarrow> Inr (y # ys)))"

fun then_exn :: "js_exn + 'a \<Rightarrow> ('a \<Rightarrow> js_exn + 'b) \<Rightarrow> js_exn + 'b" where
  "then_exn (Inl e) f = Inl e"
| "then_exn (Inr x) f = f x"

text \<open>
  The arrow function of \<open>mapEntityPanelsToOutcomes\<close> (lines 1295 to 1306). The outcome
  reads "name bankrupt: reason" (the default reason is "cash flow broken") or
  "name current cash: cash".
\<close>

definition panelOutcome :: "jsval \<Rightarrow> nat \<Rightarrow> js_exn + jsval" where
  "panelOutcome panel index =
     then_exn (get_prop panel ''broken'') (\<lambda>broken.
     then_exn (get_prop panel ''name'') (\<lambda>name.
     then_exn (to_string name) (\<lambda>name_s.
     then_exn (get_prop panel ''cash'') (\<lambda>cash.
     then_exn
       (if truthy broken then
          then_exn (get_prop panel ''bankruptReason'') (\<lambda>reason.
          then_exn (to_string (if truthy reason then reason
                               else JStr [29616, 37329, 27969, 26029, 35010])) (\<lambda>reason_s.
          Inr (name_s @ [32, 24050, 30772, 20135, 58, 32] @ reason_s)))
        else
          then_exn (to_string cash) (\<lambda>cash_s.
          Inr (name_s @ [32, 24403, 21069, 29616, 37329, 58, 32] @ cash_s)))
       (\<lambda>outcome.
     then_exn (get_prop panel ''attributes'') (\<lambda>attributes.
     then_exn (get_prop panel ''passiveIncome'') (\<lambda>passiveIncome.
     then_exn (get_prop panel ''passiveExpense'') (\<lambda>passiveExpense.
     Inr (JObj
       [(asc ''playerIndex'', JNum (num_of_nat index)),
        (asc ''outcome'', JStr outcome),
        (asc ''resources'',
           JObj ([(asc ''cash'', cash)] @ spread_members attributes
                 @ [(asc ''passiveIncome'', passiveIncome),
                    (asc ''passiveExpense'', passiveExpense)]))])))))))))"

text \<open>\<open>mapEntityPanelsToOutcomes\<close> (lines 1288 to 1307)\<close>

definition mapEntityPanelsToOutcomes :: "jsval \<Rightarrow> js_exn + jsval" where
  "mapEntityPanelsToOutcomes panels =
     (case panels of
        JArr ps \<Rightarrow>
          then_exn (map_exn (\<lambda>(panel, index). panelOutcome panel index)
                      (zip ps [0..<length ps]))
            (\<lambda>outcomes. Inr (JArr outcomes))
      | _ \<Rightarrow> Inr (JArr []))"

text \<open>\<open>mapTurnEvents\<close> (lines 1312 to 1322)\<close>

definition turnEvent :: "jsval \<Rightarrow> js_exn + jsval" where
  "turnEvent event =
     then_exn (get_prop event ''type'') (\<lambda>type.
     then_exn (get_prop event ''description'') (\<lambda>description.
     then_exn (get_prop event ''keyword'') (\<lambda>keyword.
     Inr (JObj
       [(asc ''type'', if truthy type then type else JStr (asc ''neutral'')),
        (asc ''description'',
           if truthy description then description
           else if truthy keyword then keyword else JStr [])]))))"

definition mapTurnEvents :: "jsval \<Rightarrow> js_exn + jsval" where
  "mapTurnEvents events =
     (case events of
        JArr es \<Rightarrow> then_exn (map_exn turnEvent es) (\<lambda>mapped. Inr (JArr mapped))
      | _ \<Rightarrow> Inr (JArr []))"

text \<open>
  The body of the \<open>try\<close> in the loop of \<open>parseNarrativeResponse\<close> (lines 1243 to 1266) for
  one captured text: \<open>Inr (Some r)\<close> when it returns \<open>r\<close> from the function,
  \<open>Inr None\<close> when it falls through, \<open>Inl\<close> when it throws. In the object it returns, the
  members of \<open>parsed\<close> come last and override the four computed ones.
\<close>

definition narrative_try :: "jsstring \<Rightarrow> jsstring \<Rightarrow> js_exn + jsval option" where
  "narrative_try content cap =
     then_exn (JSON_parse (trim cap)) (\<lambda>parsed.
       if truthy parsed \<and> typeof_object parsed then
         then_exn (get_prop parsed ''narrative'') (\<lambda>narrative.
         then_exn (get_prop parsed ''perEntityPanel'') (\<lambda>perEntityPanel.
         then_exn (mapEntityPanelsToOutcomes perEntityPanel) (\<lambda>outcomes.
         then_exn (get_prop parsed ''events'') (\<lambda>events.
         then_exn (mapTurnEvents events) (\<lambda>mapped.
         then_exn (get_prop parsed ''nextRoundHints'') (\<lambda>nextRoundHints.
         Inr (Some (JObj
           ([(asc ''narrative'', if truthy narrative then narrative else JStr content),
             (asc ''outcomes'', outcomes),
             (asc ''events'', mapped),
             (asc ''nextRoundHints'', nextRoundHints)]
            @ spread_members parsed)))))))))
       else Inr None)"

text \<open>
  One turn of the loop (lines 1239 to 1274): the pattern must match with a non-empty
  capture, and the \<open>catch\<close> swallows whatever the body throws.
\<close>

definition narrative_pattern :: "jsstring \<Rightarrow> jsstring option \<Rightarrow> jsval option" where
  "narrative_pattern content capture =
     (case capture of
        None \<Rightarrow> None
      | Some cap \<Rightarrow>
          if cap = [] then None
          else (case narrative_try content cap of Inl parseError \<Rightarrow> None | Inr r \<Rightarrow> r))"

text \<open>\<open>parseNarrativeResponse\<close> (lines 1231 to 1283)\<close>

definition parseNarrativeResponse :: "jsstring \<Rightarrow> jsval" where
  "parseNarrativeResponse content =
     (case narrative_pattern content (match_json_fence content) of
        Some r \<Rightarrow> r
      | None \<Rightarrow>
          (case narrative_pattern content (match_fence content) of
             Some r \<Rightarrow> r
           | None \<Rightarrow>
               (case narrative_pattern content (match_braces content) of
                  Some r \<Rightarrow> r
                | None \<Rightarrow>
                    JObj [(asc ''narrative'', JStr content),
                          (asc ''outcomes'', JArr []),
                          (asc ''events'', JArr [])])))"

text \<open>A property of a returned object.\<close>

definition result_prop :: "jsval \<Rightarrow> string \<Rightarrow> jsval option" where
  "result_prop r name = (case r of JObj ms \<Rightarrow> own_property ms (asc name) | _ \<Rightarrow> None)"

text \<open>The captures of the three patterns on a text, in the order the loops try them.\<close>

definition captures :: "jsstring \<Rightarrow> jsstring list" where
  "captures content =
     concat (map (\<lambda>capture. case capture of None \<Rightarrow> [] | Some cap \<Rightarrow> [cap])
               [match_json_fence content, match_fence content, match_braces content])"

section \<open>Parser call: \<open>extractJsonFromResponse\<close> of \<open>parserApi.ts\<close>\<close>

text \<open>The body of the \<open>try\<close> (lines 217 to 223) for one captured text.\<close>

definition panel_try :: "jsstring \<Rightarrow> js_exn + jsval option" where
  "panel_try cap =
     then_exn (JSON_parse (trim cap)) (\<lambda>parsed.
       if truthy parsed \<and> typeof_object parsed then
         then_exn (get_prop parsed ''perEntityPanel'') (\<lambda>perEntityPanel.
           if truthy perEntityPanel then Inr (Some parsed) else Inr None)
       else Inr None)"

definition panel_pattern :: "jsstring option \<Rightarrow> jsval option" where
  "panel_pattern capture =
     (case capture of
        None \<Rightarrow> None
      | Some cap \<Rightarrow>
          if cap = [] then None
          else (case panel_try cap of Inl e \<Rightarrow> None | Inr r \<Rightarrow> r))"

text \<open>\<open>extractJsonFromResponse\<close> (lines 205 to 231); \<open>None\<close> is \<open>null\<close>.\<close>

definition extractJsonFromResponse :: "jsstring \<Rightarrow> jsval option" where
  "extractJsonFromResponse content =
     (case panel_pattern (match_json_fence content) of
        Some r \<Rightarrow> Some r
      | None \<Rightarrow>
          (case panel_pattern (match_fence content) of
             Some r \<Rightarrow> Some r
           | None \<Rightarrow> panel_pattern (match_braces content)))"

section \<open>History manager\<close>

datatype msg_role = System | User | Assistant

record ConversationMessage =
  role :: msg_role
  content :: jsstring

subsection \<open>\<open>AIService.summarizeRound\<close>\<close>

text \<open>\<open>messages.find(m => m.role === r)?.content || ''\<close>\<close>

definition first_content :: "msg_role \<Rightarrow> ConversationMessage list \<Rightarrow> jsstring" where
  "first_content r messages =
     (case find (\<lambda>m. role m = r) messages of None \<Rightarrow> [] | Some m \<Rightarrow> content m)"

text \<open>\<open>(e) => e.keyword || e.description\<close>\<close>

definition keyword_or_description :: "jsval \<Rightarrow> js_exn + jsval" where
  "keyword_or_description e =
     (case get_prop e ''keyword'' of
        Inl x \<Rightarrow> Inl x
      | Inr k \<Rightarrow> if truthy k then Inr k else get_prop e ''description'')"

text \<open>
  The body of the \<open>try\<close> in \<open>summarizeRound\<close> (lines 329 to 339): the value of
  \<open>keyEvents\<close> at its end, or the exception that leaves it. The separator of the join is
  the ideographic comma.
\<close>

definition keyEvents_try :: "jsstring \<Rightarrow> js_exn + jsstring" where
  "keyEvents_try assistantContent =
     (case match_json_fence assistantContent of
        None \<Rightarrow> Inr []
      | Some cap \<Rightarrow>
          (case JSON_parse cap of
             Inl x \<Rightarrow> Inl x
           | Inr parsed \<Rightarrow>
               (case get_prop parsed ''events'' of
                  Inl x \<Rightarrow> Inl x
                | Inr events \<Rightarrow>
                    (case (case events of
                             JArr es \<Rightarrow>
                               (case map_exn keyword_or_description (take 3 es) of
                                  Inl x \<Rightarrow> Inl x
                                | Inr ks \<Rightarrow> array_join ks [12289])
                           | _ \<Rightarrow> Inr []) of
                       Inl x \<Rightarrow> Inl x
                     | Inr keyEvents \<Rightarrow>
                         (case get_prop parsed ''narrative'' of
                            Inl x \<Rightarrow> Inl x
                          | Inr narrative \<Rightarrow>
                              if truthy narrative \<and> keyEvents = [] then
                                (case narrative of
                                   JStr s \<Rightarrow> Inr (take 100 s @ asc ''...'')
                                 | _ \<Rightarrow> Inl TypeError)
                              else Inr keyEvents)))))"

text \<open>
  \<open>summarizeRound\<close> (lines 317 to 346): "round N: key events", with \<open>?\<close> for a round
  number that is not found, and the first hundred characters of the reply when the
  \<open>try\<close> throws.
\<close>

definition summarizeRound :: "ConversationMessage list \<Rightarrow> jsstring" where
  "summarizeRound messages =
     (let userContent = first_content User messages;
          assistantContent = first_content Assistant messages;
          roundNum = (case match_round userContent of Some ds \<Rightarrow> ds | None \<Rightarrow> asc ''?'');
          keyEvents = (case keyEvents_try assistantContent of
                         Inr k \<Rightarrow> k
                       | Inl x \<Rightarrow> take 100 assistantContent @ asc ''...'')
      in [31532] @ roundNum @ [22238, 21512, 58, 32] @ keyEvents)"

subsection \<open>\<open>AIService.compressHistory\<close>\<close>

text \<open>
  Lines 270 to 279: a round is closed by each assistant message; messages after the
  last assistant message form a last, open round.
\<close>

fun groupRounds ::
  "ConversationMessage list \<Rightarrow> ConversationMessage list \<Rightarrow> ConversationMessage list list" where
  "groupRounds [] currentRoundMessages =
     (if currentRoundMessages \<noteq> [] then [currentRoundMessages] else [])"
| "groupRounds (msg # msgs) currentRoundMessages =
     (if role msg = Assistant then (currentRoundMessages @ [msg]) # groupRounds msgs []
      else groupRounds msgs (currentRoundMessages @ [msg]))"

definition messagesTokens :: "ConversationMessage list \<Rightarrow> nat" where
  "messagesTokens messages = sum_list (map (\<lambda>m. estimateTokenCount (content m)) messages)"

text \<open>
  \<open>tokens <= maxTokens * 0.7\<close> (line 291). The product is a binary64 product: \<open>0.7\<close> is
  the double \<open>6305039478318694 / 2^53\<close>, and the exact product is rounded to the nearest
  double. \<open>maxTokens\<close> is a non-negative integer below \<open>2^53\<close>.
\<close>

definition fits_budget :: "nat \<Rightarrow> nat \<Rightarrow> bool" where
  "fits_budget tokens maxTokens =
     (case round_to_double False (maxTokens * 6305039478318694, 2 ^ 53) of
        Finite neg m u \<Rightarrow> (case scale_frac 2 (m, 1) u of (N, D) \<Rightarrow> tokens * D \<le> N)
      | Infinite neg \<Rightarrow> True)"

text \<open>
  The loop of lines 287 to 300 over the rounds from the newest to the oldest; the first
  argument is the list of rounds still to visit, newest first.
\<close>

fun compressLoop ::
  "nat \<Rightarrow> ConversationMessage list list \<Rightarrow> ConversationMessage list \<Rightarrow> nat \<Rightarrow> jsstring list
     \<Rightarrow> ConversationMessage list \<times> jsstring list" where
  "compressLoop maxTokens [] result currentTokens summaries = (result, summaries)"
| "compressLoop maxTokens (roundMessages # older) result currentTokens summaries =
     (let roundTokens = messagesTokens roundMessages
      in if fits_budget (currentTokens + roundTokens) maxTokens then
           compressLoop maxTokens older (roundMessages @ result) (currentTokens + roundTokens)
             summaries
         else
           compressLoop maxTokens older result currentTokens
             (summarizeRound roundMessages # summaries))"

text \<open>The heading of the summary message: a bracketed "summary of past rounds" line.\<close>

definition summaryHeader :: jsstring where
  "summaryHeader = [12304, 21382, 21490, 22238, 21512, 25688, 35201, 12305, 10]"

definition compressHistory :: "ConversationMessage list \<Rightarrow> nat \<Rightarrow> ConversationMessage list" where
  "compressHistory messages maxTokens =
     (let rounds = groupRounds messages [];
          (result, summaries) = compressLoop maxTokens (rev rounds) [] 0 []
      in if summaries \<noteq> [] then
           \<lparr>role = System, content = summaryHeader @ intersperse [10] summaries\<rparr> # result
         else result)"

subsection \<open>\<open>getConversationHistory\<close> and \<open>saveConversationHistory\<close>\<close>

record HistoryConfig =
  history_enabled :: bool
  maxRounds :: int
  maxTokens :: nat
  summarizeOldRounds :: bool

text \<open>\<open>Partial<HistoryConfig>\<close>: every property may be absent.\<close>

record PartialHistoryConfig =
  p_enabled :: "bool option"
  p_maxRounds :: "int option"
  p_maxTokens :: "nat option"
  p_summarizeOldRounds :: "bool option"

definition defaultHistoryConfig :: HistoryConfig where
  "defaultHistoryConfig =
     \<lparr>history_enabled = True, maxRounds = 10, maxTokens = 16000, summarizeOldRounds = True\<rparr>"

text \<open>\<open>{ ...this.defaultHistoryConfig, ...config }\<close>\<close>

definition mergeHistoryConfig :: "HistoryConfig \<Rightarrow> PartialHistoryConfig \<Rightarrow> HistoryConfig" where
  "mergeHistoryConfig d c =
     \<lparr>history_enabled = (case p_enabled c of None \<Rightarrow> history_enabled d | Some b \<Rightarrow> b),
      maxRounds = (case p_maxRounds c of None \<Rightarrow> maxRounds d | Some n \<Rightarrow> n),
      maxTokens = (case p_maxTokens c of None \<Rightarrow> maxTokens d | Some n \<Rightarrow> n),
      summarizeOldRounds =
        (case p_summarizeOldRounds c of None \<Rightarrow> summarizeOldRounds d | Some b \<Rightarrow> b)\<rparr>"

text \<open>A row of the history table, as \<open>createMany\<close> receives it and \<open>findMany\<close> returns it.\<close>

record HistoryRow =
  row_sessionId :: jsstring
  row_round :: int
  row_role :: msg_role
  row_content :: jsstring
  row_tokenCount :: nat

text \<open>
  What the logger receives: the level, the message, and for an error the \<open>message\<close> of
  the caught error.
\<close>

datatype log_entry = LogInfo jsstring | LogError jsstring "jsstring option"

definition int_to_string :: "int \<Rightarrow> jsstring" where
  "int_to_string i = (if i < 0 then [45] @ nat_to_string (nat (- i)) else nat_to_string (nat i))"

text \<open>
  \<open>try { body } catch (error) { handler }\<close> over a computation that logs: the result of
  the body is either a value or the exception that left it.
\<close>

definition try_catch ::
  "('e + 'a) \<times> log_entry list \<Rightarrow> ('e \<Rightarrow> ('e + 'a) \<times> log_entry list)
     \<Rightarrow> ('e + 'a) \<times> log_entry list" where
  "try_catch body handler =
     (case body of
        (Inr v, logs) \<Rightarrow> (Inr v, logs)
      | (Inl error, logs) \<Rightarrow> (case handler error of (r, logs') \<Rightarrow> (r, logs @ logs')))"

text \<open>The records of lines 169 to 175.\<close>

definition historyRecords ::
  "jsstring \<Rightarrow> int \<Rightarrow> ConversationMessage list \<Rightarrow> HistoryRow list" where
  "historyRecords sessionId round messages =
     map (\<lambda>msg. \<lparr>row_sessionId = sessionId, row_round = round, row_role = role msg,
                  row_content = content msg,
                  row_tokenCount = estimateTokenCount (content msg)\<rparr>) messages"

text \<open>
  \<open>saveConversationHistory\<close> (lines 163 to 189). \<open>createMany\<close> is the store's insert: it
  returns or throws. The result is \<open>Inl\<close> when an exception leaves the function.
\<close>

definition saveConversationHistory ::
  "(HistoryRow list \<Rightarrow> js_error + unit) \<Rightarrow> jsstring \<Rightarrow> int \<Rightarrow> ConversationMessage list
     \<Rightarrow> (js_error + unit) \<times> log_entry list" where
  "saveConversationHistory createMany sessionId round messages =
     try_catch
       (let records = historyRecords sessionId round messages
        in case createMany records of
             Inl error \<Rightarrow> (Inl error, [])
           | Inr u \<Rightarrow>
               (Inr (),
                [LogInfo (asc ''Saved '' @ nat_to_string (length messages)
                          @ asc '' conversation messages for session '' @ sessionId
                          @ asc '', round '' @ int_to_string round)]))
       (\<lambda>error. (Inr (), [LogError (asc ''Failed to save conversation history'')
                              (emessage error)]))"

text \<open>
  \<open>getConversationHistory\<close> (lines 194 to 257). \<open>findMany sessionId minRound currentRound\<close>
  is the store's query for the rows of the session with
  \<open>minRound \<le> round < currentRound\<close>, ordered by round and creation time.
\<close>

definition getConversationHistory ::
  "(jsstring \<Rightarrow> int \<Rightarrow> int \<Rightarrow> js_error + HistoryRow list) \<Rightarrow> jsstring \<Rightarrow> int
     \<Rightarrow> PartialHistoryConfig \<Rightarrow> (js_error + ConversationMessage list) \<times> log_entry list" where
  "getConversationHistory findMany sessionId currentRound config =
     (let historyConfig = mergeHistoryConfig defaultHistoryConfig config
      in if \<not> history_enabled historyConfig then (Inr [], [])
         else
           try_catch
             (let minRound = max 1 (currentRound - maxRounds historyConfig)
              in case findMany sessionId minRound currentRound of
                   Inl error \<Rightarrow> (Inl error, [])
                 | Inr history \<Rightarrow>
                     if history = [] then (Inr [], [])
                     else
                       (let messages =
                              map (\<lambda>h. \<lparr>role = row_role h, content = row_content h\<rparr>) history;
                            totalTokens = messagesTokens messages;
                            messages' =
                              (if totalTokens > maxTokens historyConfig
                                  \<and> summarizeOldRounds historyConfig
                               then compressHistory messages (maxTokens historyConfig)
                               else messages)
                        in (Inr messages',
                            [LogInfo (asc ''Retrieved conversation history for session ''
                                      @ sessionId)])))
             (\<lambda>error. (Inr [], [LogError (asc ''Failed to get conversation history'')
                                    (emessage error)])))"

subsection \<open>Sample data\<close>

text \<open>A store that is down: every operation throws.\<close>

definition store_down :: js_error where
  "store_down =
     \<lparr>ecode = Some (asc ''P1001''), emessage = Some (asc ''Cannot reach database server''),
      eresponse = None\<rparr>"

text \<open>
  A history of three rounds; the reply of the second round is long, the other two
  rounds are short. The user messages read "round 1", "round 2 expand", "round 3 buy".
\<close>

definition sample_round1 :: "ConversationMessage list" where
  "sample_round1 =
     [\<lparr>role = User, content = [31532, 49, 22238, 21512]\<rparr>,
      \<lparr>role = Assistant, content = asc ''fine''\<rparr>]"

definition sample_round2 :: "ConversationMessage list" where
  "sample_round2 =
     [\<lparr>role = User, content = [31532, 50, 22238, 21512] @ asc '' expand''\<rparr>,
      \<lparr>role = Assistant, content = asc ''a b c d e f g h i j k l''\<rparr>]"

definition sample_round3 :: "ConversationMessage list" where
  "sample_round3 =
     [\<lparr>role = User, content = [31532, 51, 22238, 21512] @ asc '' buy''\<rparr>,
      \<lparr>role = Assistant, content = asc ''ok done''\<rparr>]"

text \<open>Round 3 with a longer reply.\<close>

definition sample_round3_long :: "ConversationMessage list" where
  "sample_round3_long =
     [\<lparr>role = User, content = [31532, 51, 22238, 21512] @ asc '' buy''\<rparr>,
      \<lparr>role = Assistant, content = asc ''ok done and paid''\<rparr>]"

section \<open>Dual-call orchestrator\<close>

subsection \<open>Fixed prompts of \<open>defaultPrompts.ts\<close>\<close>

text \<open>
  The six prompt constants, as code units. \<open>NARRATIVE_INIT_PROMPT\<close> asks for a background
  story, \<open>NARRATIVE_ROUND_PROMPT\<close> for the narrative of a round, and
  \<open>NARRATIVE_SYSTEM_PROMPT\<close> describes the host; it ends by saying that only narrative
  text is wanted, no JSON, since another model parses the data. \<open>PARSER_PROMPT\<close> and
  \<open>PARSER_INIT_PROMPT\<close> request a JSON structure and spell out its schema, and
  \<open>PARSER_SYSTEM_PROMPT\<close> demands JSON output in a fenced block.
\<close>

definition NARRATIVE_INIT_PROMPT :: jsstring where
  "NARRATIVE_INIT_PROMPT =
     [36825, 26159, 19968, 22330, 21830, 19994, 31454, 20105, 21338, 24328, 28216,
      25103, 65292, 26377, 51, 20010, 20027, 20307, 22312, 26377, 38480, 24066, 22330,
      36164, 28304, 19979, 23547, 27714, 30456, 23545, 26356, 20248, 30340, 21457,
      23637, 65292, 25925, 20107, 32972, 26223, 20026, 38646, 21806, 34892, 19994,
      65292, 35831, 23613, 21487, 33021, 29983, 21160, 22320, 29983, 25104, 19968,
      31687, 38271, 31687, 24133, 30340, 32972, 26223, 25925, 20107, 20316, 20026,
      28216, 25103, 22522, 30784, 12290, 10, 10, 35201, 27714, 65306, 10, 49, 46, 32,
      32972, 26223, 25925, 20107, 32422, 54, 48, 48, 45, 56, 48, 48, 23383, 10, 50, 46,
      32, 20171, 32461, 34892, 19994, 32972, 26223, 12289, 24066, 22330, 29615, 22659,
      12289, 31454, 20105, 26684, 23616, 10, 51, 46, 32, 20026, 51, 20010, 20027,
      20307, 20998, 21035, 35774, 23450, 65306, 10, 32, 32, 32, 45, 32, 20225, 19994,
      21517, 31216, 65288, 20013, 25991, 65292, 26377, 29305, 33394, 65289, 10, 32, 32,
      32, 45, 32, 20225, 19994, 23450, 20301, 21644, 29305, 28857, 10, 32, 32, 32, 45,
      32, 21021, 22987, 36164, 37329, 65288, 49, 48, 48, 19975, 45, 53, 48, 48, 19975,
      20043, 38388, 65289, 10, 32, 32, 32, 45, 32, 26680, 24515, 23646, 24615, 65288,
      24066, 22330, 20221, 39069, 12289, 21697, 29260, 22768, 35465, 12289, 21019,
      26032, 33021, 21147, 65292, 48, 45, 49, 48, 48, 20998, 65289, 10, 32, 32, 32, 45,
      32, 34987, 21160, 25910, 20837, 21644, 34987, 21160, 25903, 20986, 65288, 27599,
      22238, 21512, 65289, 10, 32, 32, 32, 45, 32, 31616, 30701, 30340, 20225, 19994,
      32972, 26223, 25925, 20107, 10, 52, 46, 32, 29983, 25104, 19968, 20010, 24180,
      24230, 21350, 35937, 65292, 21253, 21547, 21350, 21517, 12289, 21513, 20982,
      12289, 35937, 26352, 35299, 37322, 10, 53, 46, 32, 20026, 27599, 20010, 20027,
      20307, 29983, 25104, 51, 20010, 21021, 22987, 20915, 31574, 36873, 39033]"

definition NARRATIVE_ROUND_PROMPT :: jsstring where
  "NARRATIVE_ROUND_PROMPT =
     [25512, 28436, 26412, 22238, 21512, 25152, 26377, 20915, 31574, 36896, 25104,
      30340, 24433, 21709, 65292, 25512, 28436, 19979, 19968, 22238, 21512, 21095,
      24773, 36208, 21521, 65292, 21508, 20027, 20307, 30340, 36164, 37329, 21464,
      21160, 35745, 31639, 20844, 24335, 30001, 20320, 21046, 23450, 12290, 10, 10,
      20855, 20307, 35201, 27714, 65306, 10, 49, 46, 32, 35745, 31639, 26412, 22238,
      21512, 34987, 21160, 25910, 30410, 21644, 34987, 21160, 25903, 20986, 32467,
      26524, 10, 50, 46, 32, 35745, 31639, 19968, 27425, 24615, 25910, 30410, 25903,
      20986, 32467, 26524, 65288, 22522, 20110, 29609, 23478, 20915, 31574, 65289, 10,
      51, 46, 32, 26356, 26032, 19979, 22238, 21512, 34987, 21160, 25910, 30410, 25903,
      20986, 39044, 31639, 21644, 19968, 27425, 24615, 25910, 30410, 25903, 20986,
      39044, 31639, 10, 52, 46, 32, 35745, 31639, 24403, 21069, 36164, 37329, 39069,
      24230, 10, 53, 46, 32, 35760, 20303, 20027, 20307, 26412, 36718, 20915, 31574,
      20869, 23481, 10, 54, 46, 32, 23637, 31034, 21508, 20915, 31574, 19982, 20107,
      20214, 22914, 20309, 23548, 33268, 25512, 28436, 32467, 26524, 65292, 23637,
      29616, 36830, 38145, 21453, 24212, 25110, 36923, 36753, 10, 55, 46, 32, 26816,
      27979, 26412, 22238, 21512, 25512, 28436, 26377, 26080, 29609, 23478, 35299,
      38145, 26032, 25104, 23601, 10, 56, 46, 32, 29983, 25104, 19979, 22238, 21512,
      30340, 51, 20010, 20915, 31574, 36873, 39033, 20379, 29609, 23478, 36873, 25321,
      10, 57, 46, 32, 22914, 26524, 26377, 20027, 20307, 29616, 37329, 27969, 25509,
      36817, 21361, 38505, 65292, 21457, 20986, 35686, 21578, 10, 10, 35831, 29992,
      29983, 21160, 30340, 21465, 20107, 35821, 35328, 25551, 36848, 26412, 22238,
      21512, 21457, 29983, 30340, 19968, 20999, 65292, 35753, 29609, 23478, 26377,
      27785, 28024, 24863, 12290]"

definition NARRATIVE_SYSTEM_PROMPT :: jsstring where
  "NARRATIVE_SYSTEM_PROMPT =
     [20320, 26159, 12298, 20961, 22681, 30342, 26159, 38376, 12299, 21830, 19994,
      21338, 24328, 28216, 25103, 30340, 65, 73, 20027, 25345, 20154, 12290, 10, 10,
      20320, 30340, 32844, 36131, 26159, 65306, 10, 49, 46, 32, 26681, 25454, 29609,
      23478, 20915, 31574, 25512, 28436, 21830, 19994, 21095, 24773, 10, 50, 46, 32,
      29992, 29983, 21160, 12289, 26377, 30011, 38754, 24863, 30340, 35821, 35328,
      25551, 36848, 20107, 20214, 10, 51, 46, 32, 20307, 29616, 20915, 31574, 20043,
      38388, 30340, 22240, 26524, 20851, 31995, 21644, 36830, 38145, 21453, 24212, 10,
      52, 46, 32, 20445, 25345, 28216, 25103, 30340, 32039, 24352, 24863, 21644, 25103,
      21095, 24615, 10, 53, 46, 32, 20844, 24179, 23545, 24453, 27599, 20010, 20027,
      20307, 65292, 19981, 20559, 34962, 20219, 20309, 19968, 26041, 10, 10, 21465,
      20107, 39118, 26684, 65306, 10, 45, 32, 20351, 29992, 31532, 19977, 20154, 31216,
      10, 45, 32, 26102, 38388, 33410, 22863, 25353, 23395, 24230, 47, 21322, 24180,
      25512, 36827, 10, 45, 32, 21253, 21547, 24066, 22330, 29615, 22659, 21464, 21270,
      12289, 31454, 20105, 21160, 24577, 12289, 31361, 21457, 20107, 20214, 10, 45, 32,
      20307, 29616, 21830, 19994, 26234, 24935, 21644, 21338, 24328, 31574, 30053, 10,
      10, 27880, 24847, 65306, 20320, 21482, 38656, 35201, 36755, 20986, 21095, 24773,
      21465, 36848, 25991, 26412, 65292, 19981, 38656, 35201, 36755, 20986, 74, 83, 79,
      78, 26684, 24335, 12290, 25968, 25454, 35299, 26512, 30001, 21478, 19968, 20010,
      65, 73, 36127, 36131, 12290]"

definition PARSER_PROMPT :: jsstring where
  "PARSER_PROMPT =
     [35831, 20174, 19978, 36848, 21095, 24773, 25991, 26412, 20013, 25552, 21462, 47,
      25512, 26029, 20197, 19979, 32467, 26500, 21270, 25968, 25454, 65292, 22914,
      26524, 21095, 24773, 20013, 27809, 26377, 26126, 30830, 25552, 21040, 65292,
      35831, 26681, 25454, 21095, 24773, 20869, 23481, 21512, 29702, 25512, 26029,
      12290, 10, 10, 24517, 39035, 36755, 20986, 20197, 19979, 74, 83, 79, 78, 32467,
      26500, 65288, 29992, 96, 96, 96, 106, 115, 111, 110, 20195, 30721, 22359, 21253,
      35065, 65289, 65306, 10, 10, 123, 10, 32, 32, 34, 114, 111, 117, 110, 100, 84,
      105, 116, 108, 101, 34, 58, 32, 34, 31532, 88, 22238, 21512, 65306, 50, 48, 88,
      88, 24180, 88, 23395, 24230, 34, 44, 10, 32, 32, 10, 32, 32, 34, 112, 101, 114,
      69, 110, 116, 105, 116, 121, 80, 97, 110, 101, 108, 34, 58, 32, 91, 10, 32, 32,
      32, 32, 123, 10, 32, 32, 32, 32, 32, 32, 34, 105, 100, 34, 58, 32, 34, 65, 34,
      44, 10, 32, 32, 32, 32, 32, 32, 34, 110, 97, 109, 101, 34, 58, 32, 34, 20225,
      19994, 21517, 31216, 34, 44, 10, 32, 32, 32, 32, 32, 32, 34, 99, 97, 115, 104,
      34, 58, 32, 24403, 21069, 29616, 37329, 25968, 23383, 44, 10, 32, 32, 32, 32, 32,
      32, 34, 97, 116, 116, 114, 105, 98, 117, 116, 101, 115, 34, 58, 32, 123, 10, 32,
      32, 32, 32, 32, 32, 32, 32, 34, 24066, 22330, 20221, 39069, 34, 58, 32, 48, 45,
      49, 48, 48, 30340, 25968, 23383, 44, 10, 32, 32, 32, 32, 32, 32, 32, 32, 34,
      21697, 29260, 22768, 35465, 34, 58, 32, 48, 45, 49, 48, 48, 30340, 25968, 23383,
      44, 10, 32, 32, 32, 32, 32, 32, 32, 32, 34, 21019, 26032, 33021, 21147, 34, 58,
      32, 48, 45, 49, 48, 48, 30340, 25968, 23383, 10, 32, 32, 32, 32, 32, 32, 125, 44,
      10, 32, 32, 32, 32, 32, 32, 34, 112, 97, 115, 115, 105, 118, 101, 73, 110, 99,
      111, 109, 101, 34, 58, 32, 27599, 22238, 21512, 34987, 21160, 25910, 20837, 44,
      10, 32, 32, 32, 32, 32, 32, 34, 112, 97, 115, 115, 105, 118, 101, 69, 120, 112,
      101, 110, 115, 101, 34, 58, 32, 27599, 22238, 21512, 34987, 21160, 25903, 20986,
      44, 10, 32, 32, 32, 32, 32, 32, 34, 100, 101, 108, 116, 97, 34, 58, 32, 123, 10,
      32, 32, 32, 32, 32, 32, 32, 32, 34, 99, 97, 115, 104, 34, 58, 32, 26412, 22238,
      21512, 29616, 37329, 21464, 21270, 44, 10, 32, 32, 32, 32, 32, 32, 32, 32, 34,
      24066, 22330, 20221, 39069, 34, 58, 32, 26412, 22238, 21512, 24066, 22330, 20221,
      39069, 21464, 21270, 44, 10, 32, 32, 32, 32, 32, 32, 32, 32, 34, 21697, 29260,
      22768, 35465, 34, 58, 32, 26412, 22238, 21512, 21697, 29260, 22768, 35465, 21464,
      21270, 44, 10, 32, 32, 32, 32, 32, 32, 32, 32, 34, 21019, 26032, 33021, 21147,
      34, 58, 32, 26412, 22238, 21512, 21019, 26032, 33021, 21147, 21464, 21270, 10,
      32, 32, 32, 32, 32, 32, 125, 44, 10, 32, 32, 32, 32, 32, 32, 34, 98, 114, 111,
      107, 101, 110, 34, 58, 32, 102, 97, 108, 115, 101, 44, 10, 32, 32, 32, 32, 32,
      32, 34, 97, 99, 104, 105, 101, 118, 101, 109, 101, 110, 116, 115, 85, 110, 108,
      111, 99, 107, 101, 100, 34, 58, 32, 91, 93, 10, 32, 32, 32, 32, 125, 10, 32, 32,
      93, 44, 10, 32, 32, 10, 32, 32, 34, 108, 101, 97, 100, 101, 114, 98, 111, 97,
      114, 100, 34, 58, 32, 91, 10, 32, 32, 32, 32, 123, 10, 32, 32, 32, 32, 32, 32,
      34, 105, 100, 34, 58, 32, 34, 65, 34, 44, 10, 32, 32, 32, 32, 32, 32, 34, 110,
      97, 109, 101, 34, 58, 32, 34, 20225, 19994, 21517, 31216, 34, 44, 10, 32, 32, 32,
      32, 32, 32, 34, 115, 99, 111, 114, 101, 34, 58, 32, 32508, 21512, 24471, 20998,
      44, 10, 32, 32, 32, 32, 32, 32, 34, 114, 97, 110, 107, 34, 58, 32, 25490, 21517,
      49, 45, 51, 44, 10, 32, 32, 32, 32, 32, 32, 34, 114, 97, 110, 107, 67, 104, 97,
      110, 103, 101, 34, 58, 32, 25490, 21517, 21464, 21270, 10, 32, 32, 32, 32, 125,
      10, 32, 32, 93, 44, 10, 32, 32, 10, 32, 32, 34, 101, 118, 101, 110, 116, 115, 34,
      58, 32, 91, 10, 32, 32, 32, 32, 123, 10, 32, 32, 32, 32, 32, 32, 34, 107, 101,
      121, 119, 111, 114, 100, 34, 58, 32, 34, 20107, 20214, 20851, 38190, 35789, 34,
      44, 10, 32, 32, 32, 32, 32, 32, 34, 116, 121, 112, 101, 34, 58, 32, 34, 112, 111,
      115, 105, 116, 105, 118, 101, 25110, 110, 101, 103, 97, 116, 105, 118, 101,
      25110, 110, 101, 117, 116, 114, 97, 108, 34, 44, 10, 32, 32, 32, 32, 32, 32, 34,
      100, 101, 115, 99, 114, 105, 112, 116, 105, 111, 110, 34, 58, 32, 34, 20107,
      20214, 31616, 30701, 25551, 36848, 34, 44, 10, 32, 32, 32, 32, 32, 32, 34, 97,
      102, 102, 101, 99, 116, 101, 100, 69, 110, 116, 105, 116, 105, 101, 115, 34, 58,
      32, 91, 34, 21463, 24433, 21709, 30340, 20027, 20307, 73, 68, 34, 93, 10, 32, 32,
      32, 32, 125, 10, 32, 32, 93, 44, 10, 32, 32, 10, 32, 32, 34, 111, 112, 116, 105,
      111, 110, 115, 34, 58, 32, 91, 10, 32, 32, 32, 32, 123, 10, 32, 32, 32, 32, 32,
      32, 34, 105, 100, 34, 58, 32, 34, 49, 34, 44, 10, 32, 32, 32, 32, 32, 32, 34,
      116, 105, 116, 108, 101, 34, 58, 32, 34, 36873, 39033, 26631, 39064, 34, 44, 10,
      32, 32, 32, 32, 32, 32, 34, 100, 101, 115, 99, 114, 105, 112, 116, 105, 111, 110,
      34, 58, 32, 34, 36873, 39033, 35814, 32454, 25551, 36848, 34, 44, 10, 32, 32, 32,
      32, 32, 32, 34, 101, 120, 112, 101, 99, 116, 101, 100, 68, 101, 108, 116, 97, 34,
      58, 32, 123, 10, 32, 32, 32, 32, 32, 32, 32, 32, 34, 99, 97, 115, 104, 34, 58,
      32, 39044, 26399, 29616, 37329, 21464, 21270, 44, 10, 32, 32, 32, 32, 32, 32, 32,
      32, 34, 24066, 22330, 20221, 39069, 34, 58, 32, 39044, 26399, 24066, 22330,
      20221, 39069, 21464, 21270, 10, 32, 32, 32, 32, 32, 32, 125, 44, 10, 32, 32, 32,
      32, 32, 32, 34, 99, 97, 116, 101, 103, 111, 114, 121, 34, 58, 32, 34, 97, 116,
      116, 97, 99, 107, 25110, 100, 101, 102, 101, 110, 115, 101, 25110, 99, 111, 111,
      112, 101, 114, 97, 116, 105, 111, 110, 25110, 101, 120, 112, 108, 111, 114, 101,
      25110, 116, 114, 97, 100, 101, 34, 44, 10, 32, 32, 32, 32, 32, 32, 34, 114, 105,
      115, 107, 76, 101, 118, 101, 108, 34, 58, 32, 34, 108, 111, 119, 25110, 109, 101,
      100, 105, 117, 109, 25110, 104, 105, 103, 104, 34, 10, 32, 32, 32, 32, 125, 10,
      32, 32, 93, 44, 10, 32, 32, 10, 32, 32, 34, 108, 101, 100, 103, 101, 114, 34, 58,
      32, 123, 10, 32, 32, 32, 32, 34, 115, 116, 97, 114, 116, 105, 110, 103, 67, 97,
      115, 104, 34, 58, 32, 26399, 21021, 29616, 37329, 44, 10, 32, 32, 32, 32, 34,
      112, 97, 115, 115, 105, 118, 101, 73, 110, 99, 111, 109, 101, 34, 58, 32, 34987,
      21160, 25910, 20837, 21512, 35745, 44, 10, 32, 32, 32, 32, 34, 112, 97, 115, 115,
      105, 118, 101, 69, 120, 112, 101, 110, 115, 101, 34, 58, 32, 34987, 21160, 25903,
      20986, 21512, 35745, 44, 10, 32, 32, 32, 32, 34, 100, 101, 99, 105, 115, 105,
      111, 110, 67, 111, 115, 116, 34, 58, 32, 20915, 31574, 25104, 26412, 44, 10, 32,
      32, 32, 32, 34, 100, 101, 99, 105, 115, 105, 111, 110, 73, 110, 99, 111, 109,
      101, 34, 58, 32, 20915, 31574, 25910, 30410, 44, 10, 32, 32, 32, 32, 34, 98, 97,
      108, 97, 110, 99, 101, 34, 58, 32, 26399, 26411, 20313, 39069, 10, 32, 32, 125,
      44, 10, 32, 32, 10, 32, 32, 34, 104, 101, 120, 97, 103, 114, 97, 109, 34, 58, 32,
      123, 10, 32, 32, 32, 32, 34, 110, 97, 109, 101, 34, 58, 32, 34, 21350, 21517, 34,
      44, 10, 32, 32, 32, 32, 34, 111, 109, 101, 110, 34, 58, 32, 34, 112, 111, 115,
      105, 116, 105, 118, 101, 25110, 110, 101, 117, 116, 114, 97, 108, 25110, 110,
      101, 103, 97, 116, 105, 118, 101, 34, 44, 10, 32, 32, 32, 32, 34, 108, 105, 110,
      101, 115, 34, 58, 32, 91, 34, 121, 97, 110, 103, 34, 44, 32, 34, 121, 105, 110,
      34, 44, 32, 34, 121, 97, 110, 103, 34, 44, 32, 34, 121, 97, 110, 103, 34, 44, 32,
      34, 121, 105, 110, 34, 44, 32, 34, 121, 97, 110, 103, 34, 93, 44, 10, 32, 32, 32,
      32, 34, 116, 101, 120, 116, 34, 58, 32, 34, 35937, 26352, 35299, 37322, 34, 10,
      32, 32, 125, 44, 10, 32, 32, 10, 32, 32, 34, 114, 105, 115, 107, 67, 97, 114,
      100, 34, 58, 32, 34, 39118, 38505, 35780, 20272, 31616, 35780, 65288, 19968,
      21477, 35805, 65289, 34, 44, 10, 32, 32, 34, 111, 112, 112, 111, 114, 116, 117,
      110, 105, 116, 121, 67, 97, 114, 100, 34, 58, 32, 34, 26426, 20250, 35780, 20272,
      31616, 35780, 65288, 19968, 21477, 35805, 65289, 34, 44, 10, 32, 32, 34, 98, 101,
      110, 101, 102, 105, 116, 67, 97, 114, 100, 34, 58, 32, 34, 25928, 30410, 35780,
      20272, 31616, 35780, 65288, 19968, 21477, 35805, 65289, 34, 44, 10, 32, 32, 10,
      32, 32, 34, 97, 99, 104, 105, 101, 118, 101, 109, 101, 110, 116, 115, 34, 58, 32,
      91, 10, 32, 32, 32, 32, 123, 10, 32, 32, 32, 32, 32, 32, 34, 105, 100, 34, 58,
      32, 34, 97, 99, 104, 95, 120, 120, 120, 34, 44, 10, 32, 32, 32, 32, 32, 32, 34,
      101, 110, 116, 105, 116, 121, 73, 100, 34, 58, 32, 34, 33719, 24471, 25104,
      23601, 30340, 20027, 20307, 73, 68, 34, 44, 10, 32, 32, 32, 32, 32, 32, 34, 116,
      105, 116, 108, 101, 34, 58, 32, 34, 25104, 23601, 26631, 39064, 34, 44, 10, 32,
      32, 32, 32, 32, 32, 34, 100, 101, 115, 99, 114, 105, 112, 116, 105, 111, 110, 34,
      58, 32, 34, 25104, 23601, 25551, 36848, 34, 44, 10, 32, 32, 32, 32, 32, 32, 34,
      116, 114, 105, 103, 103, 101, 114, 82, 101, 97, 115, 111, 110, 34, 58, 32, 34,
      35302, 21457, 21407, 22240, 34, 10, 32, 32, 32, 32, 125, 10, 32, 32, 93, 44, 10,
      32, 32, 10, 32, 32, 34, 110, 101, 120, 116, 82, 111, 117, 110, 100, 72, 105, 110,
      116, 115, 34, 58, 32, 34, 19979, 22238, 21512, 25552, 31034, 65288, 19968, 21477,
      35805, 65289, 34, 44, 10, 32, 32, 10, 32, 32, 34, 99, 97, 115, 104, 70, 108, 111,
      119, 87, 97, 114, 110, 105, 110, 103, 34, 58, 32, 91, 10, 32, 32, 32, 32, 123,
      10, 32, 32, 32, 32, 32, 32, 34, 101, 110, 116, 105, 116, 121, 73, 100, 34, 58,
      32, 34, 20027, 20307, 73, 68, 34, 44, 10, 32, 32, 32, 32, 32, 32, 34, 109, 101,
      115, 115, 97, 103, 101, 34, 58, 32, 34, 35686, 21578, 20449, 24687, 34, 44, 10,
      32, 32, 32, 32, 32, 32, 34, 115, 101, 118, 101, 114, 105, 116, 121, 34, 58, 32,
      34, 119, 97, 114, 110, 105, 110, 103, 25110, 99, 114, 105, 116, 105, 99, 97, 108,
      34, 10, 32, 32, 32, 32, 125, 10, 32, 32, 93, 10, 125, 10, 10, 35299, 26512,
      35268, 21017, 65306, 10, 49, 46, 32, 112, 101, 114, 69, 110, 116, 105, 116, 121,
      80, 97, 110, 101, 108, 24517, 39035, 21253, 21547, 25152, 26377, 51, 20010,
      20027, 20307, 10, 50, 46, 32, 22914, 26524, 21095, 24773, 20013, 27809, 26377,
      26126, 30830, 25968, 20540, 65292, 26681, 25454, 21095, 24773, 25551, 36848,
      21512, 29702, 25512, 26029, 10, 51, 46, 32, 100, 101, 108, 116, 97, 34920, 31034,
      26412, 22238, 21512, 30340, 21464, 21270, 37327, 65292, 27491, 25968, 22686,
      21152, 36127, 25968, 20943, 23569, 10, 52, 46, 32, 108, 101, 97, 100, 101, 114,
      98, 111, 97, 114, 100, 25353, 115, 99, 111, 114, 101, 38477, 24207, 25490, 21015,
      10, 53, 46, 32, 111, 112, 116, 105, 111, 110, 115, 25552, 20379, 51, 20010,
      19979, 22238, 21512, 30340, 31574, 30053, 36873, 39033, 10, 54, 46, 32, 22914,
      26524, 26377, 20027, 20307, 29616, 37329, 20302, 20110, 34987, 21160, 25903,
      20986, 30340, 50, 20493, 65292, 24517, 39035, 22312, 99, 97, 115, 104, 70, 108,
      111, 119, 87, 97, 114, 110, 105, 110, 103, 20013, 35686, 21578, 10, 55, 46, 32,
      97, 99, 104, 105, 101, 118, 101, 109, 101, 110, 116, 115, 21482, 21253, 21547,
      26412, 22238, 21512, 26032, 35299, 38145, 30340, 25104, 23601]"

definition PARSER_SYSTEM_PROMPT :: jsstring where
  "PARSER_SYSTEM_PROMPT =
     [20320, 26159, 19968, 20010, 25968, 25454, 35299, 26512, 21161, 25163, 65292,
      19987, 38376, 36127, 36131, 23558, 28216, 25103, 21095, 24773, 25991, 26412,
      36716, 25442, 20026, 32467, 26500, 21270, 74, 83, 79, 78, 25968, 25454, 12290,
      10, 10, 20320, 30340, 32844, 36131, 26159, 65306, 10, 49, 46, 32, 20174, 21095,
      24773, 25991, 26412, 20013, 25552, 21462, 20851, 38190, 25968, 25454, 10, 50, 46,
      32, 22914, 26524, 21095, 24773, 20013, 27809, 26377, 26126, 30830, 25968, 20540,
      65292, 26681, 25454, 19978, 19979, 25991, 21512, 29702, 25512, 26029, 10, 51, 46,
      32, 30830, 20445, 36755, 20986, 30340, 74, 83, 79, 78, 26684, 24335, 27491,
      30830, 12289, 23436, 25972, 10, 52, 46, 32, 20445, 25345, 25968, 25454, 30340,
      19968, 33268, 24615, 21644, 21512, 29702, 24615, 10, 10, 27880, 24847, 65306, 10,
      45, 32, 20320, 21482, 38656, 35201, 36755, 20986, 74, 83, 79, 78, 25968, 25454,
      65292, 19981, 38656, 35201, 39069, 22806, 35299, 37322, 10, 45, 32, 24517, 39035,
      29992, 96, 96, 96, 106, 115, 111, 110, 20195, 30721, 22359, 21253, 35065, 36755,
      20986, 10, 45, 32, 25152, 26377, 25968, 20540, 23383, 27573, 24517, 39035, 26159,
      25968, 23383, 31867, 22411, 65292, 19981, 33021, 26159, 23383, 31526, 20018]"

definition PARSER_INIT_PROMPT :: jsstring where
  "PARSER_INIT_PROMPT =
     [35831, 20174, 19978, 36848, 32972, 26223, 25925, 20107, 20013, 25552, 21462,
      28216, 25103, 21021, 22987, 21270, 25968, 25454, 65292, 36755, 20986, 20197,
      19979, 74, 83, 79, 78, 32467, 26500, 65306, 10, 10, 123, 10, 32, 32, 34, 98, 97,
      99, 107, 103, 114, 111, 117, 110, 100, 83, 116, 111, 114, 121, 34, 58, 32, 34,
      23436, 25972, 30340, 32972, 26223, 25925, 20107, 25991, 26412, 34, 44, 10, 32,
      32, 10, 32, 32, 34, 101, 110, 116, 105, 116, 105, 101, 115, 34, 58, 32, 91, 10,
      32, 32, 32, 32, 123, 10, 32, 32, 32, 32, 32, 32, 34, 105, 100, 34, 58, 32, 34,
      65, 34, 44, 10, 32, 32, 32, 32, 32, 32, 34, 110, 97, 109, 101, 34, 58, 32, 34,
      20225, 19994, 21517, 31216, 34, 44, 10, 32, 32, 32, 32, 32, 32, 34, 99, 97, 115,
      104, 34, 58, 32, 21021, 22987, 36164, 37329, 44, 10, 32, 32, 32, 32, 32, 32, 34,
      97, 116, 116, 114, 105, 98, 117, 116, 101, 115, 34, 58, 32, 123, 10, 32, 32, 32,
      32, 32, 32, 32, 32, 34, 24066, 22330, 20221, 39069, 34, 58, 32, 21021, 22987,
      24066, 22330, 20221, 39069, 44, 10, 32, 32, 32, 32, 32, 32, 32, 32, 34, 21697,
      29260, 22768, 35465, 34, 58, 32, 21021, 22987, 21697, 29260, 22768, 35465, 44,
      10, 32, 32, 32, 32, 32, 32, 32, 32, 34, 21019, 26032, 33021, 21147, 34, 58, 32,
      21021, 22987, 21019, 26032, 33021, 21147, 10, 32, 32, 32, 32, 32, 32, 125, 44,
      10, 32, 32, 32, 32, 32, 32, 34, 112, 97, 115, 115, 105, 118, 101, 73, 110, 99,
      111, 109, 101, 34, 58, 32, 27599, 22238, 21512, 34987, 21160, 25910, 20837, 44,
      10, 32, 32, 32, 32, 32, 32, 34, 112, 97, 115, 115, 105, 118, 101, 69, 120, 112,
      101, 110, 115, 101, 34, 58, 32, 27599, 22238, 21512, 34987, 21160, 25903, 20986,
      44, 10, 32, 32, 32, 32, 32, 32, 34, 98, 97, 99, 107, 115, 116, 111, 114, 121, 34,
      58, 32, 34, 20225, 19994, 32972, 26223, 31616, 20171, 34, 10, 32, 32, 32, 32,
      125, 10, 32, 32, 93, 44, 10, 32, 32, 10, 32, 32, 34, 121, 101, 97, 114, 108, 121,
      72, 101, 120, 97, 103, 114, 97, 109, 34, 58, 32, 123, 10, 32, 32, 32, 32, 34,
      110, 97, 109, 101, 34, 58, 32, 34, 21350, 21517, 34, 44, 10, 32, 32, 32, 32, 34,
      111, 109, 101, 110, 34, 58, 32, 34, 112, 111, 115, 105, 116, 105, 118, 101,
      25110, 110, 101, 117, 116, 114, 97, 108, 25110, 110, 101, 103, 97, 116, 105, 118,
      101, 34, 44, 10, 32, 32, 32, 32, 34, 108, 105, 110, 101, 115, 34, 58, 32, 91, 34,
      121, 97, 110, 103, 34, 44, 32, 34, 121, 105, 110, 34, 44, 32, 34, 121, 97, 110,
      103, 34, 44, 32, 34, 121, 97, 110, 103, 34, 44, 32, 34, 121, 105, 110, 34, 44,
      32, 34, 121, 97, 110, 103, 34, 93, 44, 10, 32, 32, 32, 32, 34, 116, 101, 120,
      116, 34, 58, 32, 34, 35937, 26352, 35299, 37322, 34, 44, 10, 32, 32, 32, 32, 34,
      121, 101, 97, 114, 108, 121, 84, 104, 101, 109, 101, 34, 58, 32, 34, 24180,
      24230, 20027, 39064, 34, 10, 32, 32, 125, 44, 10, 32, 32, 10, 32, 32, 34, 105,
      110, 105, 116, 105, 97, 108, 79, 112, 116, 105, 111, 110, 115, 34, 58, 32, 91,
      10, 32, 32, 32, 32, 123, 10, 32, 32, 32, 32, 32, 32, 34, 105, 100, 34, 58, 32,
      34, 49, 34, 44, 10, 32, 32, 32, 32, 32, 32, 34, 116, 105, 116, 108, 101, 34, 58,
      32, 34, 36873, 39033, 26631, 39064, 34, 44, 10, 32, 32, 32, 32, 32, 32, 34, 100,
      101, 115, 99, 114, 105, 112, 116, 105, 111, 110, 34, 58, 32, 34, 36873, 39033,
      25551, 36848, 34, 44, 10, 32, 32, 32, 32, 32, 32, 34, 101, 120, 112, 101, 99,
      116, 101, 100, 68, 101, 108, 116, 97, 34, 58, 32, 123, 32, 34, 99, 97, 115, 104,
      34, 58, 32, 45, 53, 48, 48, 48, 48, 44, 32, 34, 24066, 22330, 20221, 39069, 34,
      58, 32, 53, 32, 125, 44, 10, 32, 32, 32, 32, 32, 32, 34, 99, 97, 116, 101, 103,
      111, 114, 121, 34, 58, 32, 34, 101, 120, 112, 108, 111, 114, 101, 34, 44, 10, 32,
      32, 32, 32, 32, 32, 34, 114, 105, 115, 107, 76, 101, 118, 101, 108, 34, 58, 32,
      34, 109, 101, 100, 105, 117, 109, 34, 10, 32, 32, 32, 32, 125, 10, 32, 32, 93,
      44, 10, 32, 32, 10, 32, 32, 34, 99, 97, 115, 104, 70, 111, 114, 109, 117, 108,
      97, 34, 58, 32, 34, 36164, 37329, 21464, 21160, 20844, 24335, 35828, 26126, 34,
      10, 125, 10, 10, 35201, 27714, 65306, 10, 49, 46, 32, 101, 110, 116, 105, 116,
      105, 101, 115, 24517, 39035, 21253, 21547, 51, 20010, 20027, 20307, 65292, 105,
      100, 20998, 21035, 20026, 65, 12289, 66, 12289, 67, 10, 50, 46, 32, 21021, 22987,
      36164, 37329, 22312, 49, 48, 48, 19975, 45, 53, 48, 48, 19975, 20043, 38388, 10,
      51, 46, 32, 23646, 24615, 20540, 22312, 48, 45, 49, 48, 48, 20043, 38388, 10, 52,
      46, 32, 34987, 21160, 25910, 20837, 21644, 25903, 20986, 35201, 21512, 29702,
      65288, 25910, 20837, 30053, 39640, 20110, 25903, 20986, 65289, 10, 53, 46, 32,
      105, 110, 105, 116, 105, 97, 108, 79, 112, 116, 105, 111, 110, 115, 20026, 27599,
      20010, 20027, 20307, 25552, 20379, 51, 20010, 21021, 22987, 36873, 39033]"

subsection \<open>The external completion service\<close>

record ApiConfig =
  cfg_endpoint :: jsstring
  cfg_apiKey :: jsstring
  cfg_model :: "jsstring option"

text \<open>
  The request \<open>axios.post\<close> sends: the URL, the bearer token, and the fields of the body.
  The temperature is in tenths; the timeout in milliseconds.
\<close>

record HttpRequest =
  url :: jsstring
  authorization :: jsstring
  model_name :: jsstring
  system_message :: jsstring
  user_message :: jsstring
  temperature_tenths :: nat
  max_tokens :: nat
  timeout_ms :: nat

text \<open>\<open>v?.name\<close> and \<open>v?.[0]\<close> on a decoded response body.\<close>

definition opt_get :: "jsval \<Rightarrow> string \<Rightarrow> jsval" where
  "opt_get v name =
     (case v of
        JObj ms \<Rightarrow> (case own_property ms (asc name) of None \<Rightarrow> JUndefined | Some x \<Rightarrow> x)
      | _ \<Rightarrow> JUndefined)"

definition opt_first :: "jsval \<Rightarrow> jsval" where
  "opt_first v =
     (case v of
        JArr xs \<Rightarrow> (case xs of [] \<Rightarrow> JUndefined | x # rest \<Rightarrow> x)
      | JObj ms \<Rightarrow> (case own_property ms (asc ''0'') of None \<Rightarrow> JUndefined | Some x \<Rightarrow> x)
      | JStr s \<Rightarrow> (case s of [] \<Rightarrow> JUndefined | c # rest \<Rightarrow> JStr [c])
      | _ \<Rightarrow> JUndefined)"

text \<open>\<open>response.data?.choices?.[0]?.message?.content\<close>\<close>

definition response_content :: "jsval \<Rightarrow> jsval" where
  "response_content data = opt_get (opt_get (opt_first (opt_get data ''choices'')) ''message'') ''content''"

text \<open>
  The \<open>TypeError\<close> of calling a string method on a value that is not a string, as the
  catch blocks see it: an error with a message and neither code nor response.
\<close>

definition not_a_function :: "string \<Rightarrow> js_error" where
  "not_a_function what =
     \<lparr>ecode = None, emessage = Some (asc what @ asc '' is not a function''), eresponse = None\<rparr>"

text \<open>
  The catch blocks of \<open>generateNarrative\<close> (lines 126 to 144) and \<open>parseNarrative\<close>
  (lines 181 to 199): key invalid, rate limit exceeded, request timed out, the message of
  the error, or the default.
\<close>

definition describe_error :: "jsstring \<Rightarrow> js_error \<Rightarrow> jsstring" where
  "describe_error fallback e =
     (if map_option status (eresponse e) = Some 401 then
        [65, 80, 73, 23494, 38053, 26080, 25928]
      else if map_option status (eresponse e) = Some 429 then
        [65, 80, 73, 35843, 29992, 39057, 29575, 36229, 38480]
      else if code_is e ''ETIMEDOUT'' then
        [35831, 27714, 36229, 26102, 65292, 35831, 37325, 35797]
      else message_or (emessage e) fallback)"

text \<open>The message "the API returned empty content".\<close>

definition emptyContentError :: jsstring where
  "emptyContentError = [65, 80, 73, 36820, 22238, 20869, 23481, 20026, 31354]"

subsection \<open>Narrative call: \<open>generateNarrative\<close> of \<open>narrativeApi.ts\<close>\<close>

datatype request_type = InitRequest | RoundRequest

record NarrativeRequest =
  n_type :: request_type
  n_prompt :: "jsstring option"
  n_previousParserOutput :: "jsstring option"
  n_playerDecisions :: "jsstring list option"
  n_currentRound :: "nat option"

record NarrativeResponse =
  n_success :: bool
  n_narrative :: "jsstring option"
  n_error :: "jsstring option"

text \<open>An optional string that is present and not empty.\<close>

definition given :: "jsstring option \<Rightarrow> bool" where
  "given s = (case s of None \<Rightarrow> False | Some t \<Rightarrow> t \<noteq> [])"

text \<open>\<open>request.currentRound || 1\<close>\<close>

definition round_or_1 :: "nat option \<Rightarrow> nat" where
  "round_or_1 r = (case r of None \<Rightarrow> 1 | Some n \<Rightarrow> if n = 0 then 1 else n)"

text \<open>The numbered list of lines 74 to 76: \<open>`${i + 1}. ${d}\n`\<close> for each decision.\<close>

fun decision_lines :: "nat \<Rightarrow> jsstring list \<Rightarrow> jsstring" where
  "decision_lines i [] = []"
| "decision_lines i (d # ds) =
     nat_to_string (i + 1) @ [46, 32] @ d @ [10] @ decision_lines (i + 1) ds"

text \<open>
  The user prompt of lines 53 to 87. The headings read: "additional requirements of the
  host", "round N", "parser results of the last round (base the narrative on these
  data)", "player decisions of this round", "additional notes of the host" and
  "requirements".
\<close>

definition narrativeUserPrompt :: "NarrativeRequest \<Rightarrow> jsstring" where
  "narrativeUserPrompt request =
     (if n_type request = InitRequest then
        NARRATIVE_INIT_PROMPT
        @ (if given (n_prompt request) then
             [10, 10, 12304, 20027, 25345, 20154, 34917, 20805, 35201, 27714, 12305, 10]
             @ the (n_prompt request)
           else [])
      else
        [35, 32, 31532, 32] @ nat_to_string (round_or_1 (n_currentRound request))
        @ [32, 22238, 21512, 25512, 28436, 10, 10]
        @ (if given (n_previousParserOutput request) then
             [35, 35, 32, 19978, 22238, 21512, 25968, 20540, 35299, 26512, 32467, 26524,
              65288, 35831, 22522, 20110, 27492, 25968, 25454, 25512, 28436, 65289, 10]
             @ fence @ [10] @ the (n_previousParserOutput request) @ [10] @ fence @ [10, 10]
           else [])
        @ (case n_playerDecisions request of
             None \<Rightarrow> []
           | Some ds \<Rightarrow>
               if ds = [] then []
               else [35, 35, 32, 26412, 22238, 21512, 29609, 23478, 20915, 31574, 10]
                    @ decision_lines 0 ds @ [10])
        @ (if given (n_prompt request) then
             [35, 35, 32, 20027, 25345, 20154, 34917, 20805, 35828, 26126, 10]
             @ the (n_prompt request) @ [10, 10]
           else [])
        @ [35, 35, 32, 25512, 28436, 35201, 27714, 10] @ NARRATIVE_ROUND_PROMPT)"

definition narrativeHttpRequest :: "ApiConfig \<Rightarrow> NarrativeRequest \<Rightarrow> HttpRequest" where
  "narrativeHttpRequest config request =
     \<lparr>url = cfg_endpoint config,
      authorization = asc ''Bearer '' @ cfg_apiKey config,
      model_name = (if given (cfg_model config) then the (cfg_model config)
                    else asc ''deepseek-chat''),
      system_message = NARRATIVE_SYSTEM_PROMPT,
      user_message = narrativeUserPrompt request,
      temperature_tenths = 8, max_tokens = 2000, timeout_ms = 120000\<rparr>"

text \<open>
  \<open>generateNarrative\<close> (lines 44 to 145). \<open>post\<close> is \<open>axios.post\<close>: it returns the decoded
  body of the response or throws. The default error message is "narrative generation
  failed".
\<close>

definition narrativeFailed :: jsstring where
  "narrativeFailed = [21095, 24773, 29983, 25104, 22833, 36133]"

definition generateNarrative ::
  "(HttpRequest \<Rightarrow> js_error + jsval) \<Rightarrow> ApiConfig \<Rightarrow> NarrativeRequest \<Rightarrow> NarrativeResponse" where
  "generateNarrative post config request =
     (case (case post (narrativeHttpRequest config request) of
              Inl error \<Rightarrow> Inl error
            | Inr data \<Rightarrow>
                (let content = response_content data
                 in if \<not> truthy content then
                      Inr \<lparr>n_success = False, n_narrative = None,
                           n_error = Some emptyContentError\<rparr>
                    else
                      (case content of
                         JStr s \<Rightarrow>
                           Inr \<lparr>n_success = True, n_narrative = Some (trim s), n_error = None\<rparr>
                       | _ \<Rightarrow> Inl (not_a_function ''content.trim''))))
      of
        Inr r \<Rightarrow> r
      | Inl error \<Rightarrow>
          \<lparr>n_success = False, n_narrative = None,
           n_error = Some (describe_error narrativeFailed error)\<rparr>)"

subsection \<open>Parser call: \<open>parseNarrative\<close> of \<open>parserApi.ts\<close>\<close>

record EntityInfo =
  entity_id :: jsstring
  entity_name :: jsstring
  currentCash :: "jsnum option"

record ParserRequest =
  pr_type :: request_type
  pr_narrative :: jsstring
  pr_entities :: "EntityInfo list option"
  pr_currentRound :: "nat option"

record ParserResponse =
  ps_success :: bool
  ps_rawText :: "jsstring option"
  ps_panelData :: "jsval option"
  ps_parseSuccess :: "bool option"
  ps_error :: "jsstring option"

text \<open>\<open>e.currentCash || 0\<close>\<close>

definition cash_or_0 :: "jsnum option \<Rightarrow> jsnum" where
  "cash_or_0 c = (case c of None \<Rightarrow> Finite False 0 0
                  | Some x \<Rightarrow> if truthy (JNum x) then x else Finite False 0 0)"

text \<open>
  The user prompt of lines 116 to 136. \<open>toLocaleString\<close> is the number formatting of the
  runtime's locale. The headings read "background story", "current round", "entity
  list", "current cash" and "narrative text".
\<close>

definition parserUserPrompt :: "(jsnum \<Rightarrow> jsstring) \<Rightarrow> ParserRequest \<Rightarrow> jsstring" where
  "parserUserPrompt toLocaleString request =
     (if pr_type request = InitRequest then
        [12304, 32972, 26223, 25925, 20107, 12305, 10] @ pr_narrative request @ [10, 10]
        @ PARSER_INIT_PROMPT
      else
        [12304, 24403, 21069, 22238, 21512, 12305, 31532, 32]
        @ nat_to_string (round_or_1 (pr_currentRound request)) @ [32, 22238, 21512, 10, 10]
        @ (case pr_entities request of
             None \<Rightarrow> []
           | Some es \<Rightarrow>
               if es = [] then []
               else [12304, 20027, 20307, 21015, 34920, 12305, 10]
                    @ concat (map (\<lambda>e. [45, 32] @ entity_id e @ [58, 32] @ entity_name e
                                     @ [32, 40, 24403, 21069, 29616, 37329, 58, 32, 165]
                                     @ toLocaleString (cash_or_0 (currentCash e))
                                     @ [41, 10]) es)
                    @ [10])
        @ [12304, 21095, 24773, 25991, 26412, 12305, 10] @ pr_narrative request @ [10, 10]
        @ PARSER_PROMPT)"

definition parserHttpRequest ::
  "(jsnum \<Rightarrow> jsstring) \<Rightarrow> ApiConfig \<Rightarrow> ParserRequest \<Rightarrow> HttpRequest" where
  "parserHttpRequest toLocaleString config request =
     \<lparr>url = cfg_endpoint config,
      authorization = asc ''Bearer '' @ cfg_apiKey config,
      model_name = (if given (cfg_model config) then the (cfg_model config)
                    else asc ''deepseek-chat''),
      system_message = PARSER_SYSTEM_PROMPT,
      user_message = parserUserPrompt toLocaleString request,
      temperature_tenths = 3, max_tokens = 3000, timeout_ms = 60000\<rparr>"

text \<open>The default error message: "data parsing failed".\<close>

definition parseFailed :: jsstring where
  "parseFailed = [25968, 25454, 35299, 26512, 22833, 36133]"

text \<open>\<open>parseNarrative\<close> (lines 107 to 200)\<close>

definition parseNarrative ::
  "(HttpRequest \<Rightarrow> js_error + jsval) \<Rightarrow> (jsnum \<Rightarrow> jsstring) \<Rightarrow> ApiConfig \<Rightarrow> ParserRequest
     \<Rightarrow> ParserResponse" where
  "parseNarrative post toLocaleString config request =
     (case (case post (parserHttpRequest toLocaleString config request) of
              Inl error \<Rightarrow> Inl error
            | Inr data \<Rightarrow>
                (let content = response_content data
                 in if \<not> truthy content then
                      Inr \<lparr>ps_success = False, ps_rawText = None, ps_panelData = None,
                           ps_parseSuccess = None, ps_error = Some emptyContentError\<rparr>
                    else
                      (case content of
                         JStr s \<Rightarrow>
                           (let panelData = extractJsonFromResponse s
                            in Inr \<lparr>ps_success = True, ps_rawText = Some s,
                                    ps_panelData = panelData,
                                    ps_parseSuccess = Some (panelData \<noteq> None),
                                    ps_error = None\<rparr>)
                       | _ \<Rightarrow> Inl (not_a_function ''content.match''))))
      of
        Inr r \<Rightarrow> r
      | Inl error \<Rightarrow>
          \<lparr>ps_success = False, ps_rawText = None, ps_panelData = None,
           ps_parseSuccess = None, ps_error = Some (describe_error parseFailed error)\<rparr>)"

subsection \<open>The route \<open>POST /api/dual/full-round\<close> of \<open>routes.ts\<close>\<close>

record FullRoundBody =
  narrativeConfig :: "ApiConfig option"
  parserConfig :: "ApiConfig option"
  currentRound :: "nat option"
  previousParserOutput :: "jsstring option"
  playerDecisions :: "jsstring list option"
  entities :: "EntityInfo list option"
  extraPrompt :: "jsstring option"

text \<open>\<open>!config?.endpoint || !config?.apiKey\<close>\<close>

definition config_missing :: "ApiConfig option \<Rightarrow> bool" where
  "config_missing c =
     (case c of None \<Rightarrow> True | Some cfg \<Rightarrow> cfg_endpoint cfg = [] \<or> cfg_apiKey cfg = [])"

definition opt_string :: "jsstring option \<Rightarrow> jsval" where
  "opt_string s = (case s of None \<Rightarrow> JUndefined | Some t \<Rightarrow> JStr t)"

text \<open>\<open>narrativeResult.error || d\<close>\<close>

definition string_or :: "jsstring option \<Rightarrow> jsstring \<Rightarrow> jsstring" where
  "string_or s d = (if given s then the s else d)"

text \<open>
  The narrative and parser requests of the route (lines 200 to 206 and 217 to 222).
\<close>

definition roundNarrativeRequest :: "FullRoundBody \<Rightarrow> NarrativeRequest" where
  "roundNarrativeRequest body =
     \<lparr>n_type = RoundRequest, n_prompt = extraPrompt body,
      n_previousParserOutput = previousParserOutput body,
      n_playerDecisions = playerDecisions body,
      n_currentRound = Some (round_or_1 (currentRound body))\<rparr>"

definition roundParserRequest :: "FullRoundBody \<Rightarrow> jsstring \<Rightarrow> ParserRequest" where
  "roundParserRequest body narrative =
     \<lparr>pr_type = RoundRequest, pr_narrative = narrative,
      pr_entities = Some (case entities body of None \<Rightarrow> [] | Some es \<Rightarrow> es),
      pr_currentRound = Some (round_or_1 (currentRound body))\<rparr>"

text \<open>
  The handler (lines 172 to 240). It returns the HTTP status, the object given to
  \<open>res.json\<close> and the requests sent to the completion service, in order. The texts are
  "narrative API configuration missing", "parser API configuration missing" and "cannot
  parse the JSON structure". The two calls catch their own exceptions, so nothing
  reaches the \<open>catch\<close> of the handler.
\<close>

definition fullRound ::
  "(HttpRequest \<Rightarrow> js_error + jsval) \<Rightarrow> (jsnum \<Rightarrow> jsstring) \<Rightarrow> FullRoundBody
     \<Rightarrow> (nat \<times> jsval) \<times> HttpRequest list" where
  "fullRound post toLocaleString body =
     (if config_missing (narrativeConfig body) then
        ((400, JObj [(asc ''success'', JBool False),
                     (asc ''error'',
                        JStr [32570, 23569, 21095, 24773, 65, 80, 73, 37197, 32622])]), [])
      else if config_missing (parserConfig body) then
        ((400, JObj [(asc ''success'', JBool False),
                     (asc ''error'',
                        JStr [32570, 23569, 35299, 26512, 65, 80, 73, 37197, 32622])]), [])
      else
        (let nreq = roundNarrativeRequest body;
             narrativeResult = generateNarrative post (the (narrativeConfig body)) nreq;
             sent = [narrativeHttpRequest (the (narrativeConfig body)) nreq]
         in if \<not> n_success narrativeResult \<or> \<not> given (n_narrative narrativeResult) then
              ((200, JObj [(asc ''success'', JBool False),
                           (asc ''step'', JStr (asc ''narrative'')),
                           (asc ''error'',
                              JStr (string_or (n_error narrativeResult) narrativeFailed))]),
               sent)
            else
              (let preq = roundParserRequest body (the (n_narrative narrativeResult));
                   parseResult =
                     parseNarrative post toLocaleString (the (parserConfig body)) preq
               in ((200, JObj
                      [(asc ''success'', JBool True),
                       (asc ''narrative'', JStr (the (n_narrative narrativeResult))),
                       (asc ''parserRawText'', opt_string (ps_rawText parseResult)),
                       (asc ''panelData'',
                          case ps_panelData parseResult of None \<Rightarrow> JNull | Some p \<Rightarrow> p),
                       (asc ''parseSuccess'',
                          case ps_parseSuccess parseResult of
                            None \<Rightarrow> JUndefined | Some b \<Rightarrow> JBool b),
                       (asc ''parseError'',
                          if ps_parseSuccess parseResult = Some True then JNull
                          else JStr [26080, 27861, 35299, 26512, 74, 83, 79, 78, 32467,
                                     26500])]),
                   sent @ [parserHttpRequest toLocaleString (the (parserConfig body))
                             preq]))))"

subsection \<open>Notions of the specification, and sample data\<close>

text \<open>
  An extracted block that makes the parser call succeed, as the claim words it: it parses
  as a JSON object that has a \<open>perEntityPanel\<close> member.
\<close>

definition block_has_panel_field :: "jsstring \<Rightarrow> bool" where
  "block_has_panel_field cap \<longleftrightarrow>
     (\<exists>ms. JSON_parse (trim cap) = Inr (JObj ms)
           \<and> own_property ms (asc ''perEntityPanel'') \<noteq> None)"

text \<open>
  As the code has it: the block is not empty and the member is truthy, that is, not
  \<open>null\<close>, \<open>false\<close>, \<open>0\<close> or the empty string.
\<close>

definition block_has_panel :: "jsstring \<Rightarrow> bool" where
  "block_has_panel cap \<longleftrightarrow>
     cap \<noteq> []
     \<and> (\<exists>ms p. JSON_parse (trim cap) = Inr (JObj ms)
               \<and> own_property ms (asc ''perEntityPanel'') = Some p \<and> truthy p)"

text \<open>The body of a chat completion whose first choice has the given text.\<close>

definition chat_reply :: "jsstring \<Rightarrow> jsval" where
  "chat_reply text =
     JObj [(asc ''choices'',
            JArr [JObj [(asc ''message'', JObj [(asc ''content'', JStr text)])]])]"

text \<open>
  Two services: the narrative service answers with a story; the parser service answers
  with the given outcome.
\<close>

definition sample_post :: "js_error + jsval \<Rightarrow> HttpRequest \<Rightarrow> js_error + jsval" where
  "sample_post parser_outcome r =
     (if url r = asc ''https://story.example'' then Inr (chat_reply (asc ''Prices fell.''))
      else parser_outcome)"

definition timeout_error :: js_error where
  "timeout_error =
     \<lparr>ecode = Some (asc ''ETIMEDOUT''), emessage = Some (asc ''connect ETIMEDOUT''),
      eresponse = None\<rparr>"

definition sample_body :: FullRoundBody where
  "sample_body =
     \<lparr>narrativeConfig =
        Some \<lparr>cfg_endpoint = asc ''https://story.example'', cfg_apiKey = asc ''k1'',
              cfg_model = None\<rparr>,
      parserConfig =
        Some \<lparr>cfg_endpoint = asc ''https://parser.example'', cfg_apiKey = asc ''k2'',
              cfg_model = None\<rparr>,
      currentRound = Some 2, previousParserOutput = None,
      playerDecisions = Some [asc ''A cuts prices''], entities = None,
      extraPrompt = None\<rparr>"

text \<open>A parser reply whose JSON has the member, with the value \<open>null\<close>.\<close>

definition null_panel_text :: jsstring where
  "null_panel_text = [123, 34] @ asc ''perEntityPanel'' @ [34, 58] @ asc ''null'' @ [125]"

text \<open>A parser reply whose JSON has the member, with an empty array.\<close>

definition empty_panel_text :: jsstring where
  "empty_panel_text = [123, 34] @ asc ''perEntityPanel'' @ [34, 58, 91, 93, 125]"

text \<open>A reply in prose whose only braces do not hold JSON.\<close>

definition no_json_text :: jsstring where
  "no_json_text = asc ''Round over {no json here}''"

text \<open>
  The degraded result of \<open>parseNarrativeResponse\<close>: the raw text as the narrative, and
  empty outcomes and events.
\<close>

definition degraded :: "jsstring \<Rightarrow> jsval \<Rightarrow> bool" where
  "degraded raw r \<longleftrightarrow>
     result_prop r ''narrative'' = Some (JStr raw)
     \<and> result_prop r ''outcomes'' = Some (JArr [])
     \<and> result_prop r ''events'' = Some (JArr [])"

text \<open>
  The sentence with which \<open>PARSER_PROMPT\<close> and \<open>PARSER_INIT_PROMPT\<close> request their schema:
  "output the following JSON structure".
\<close>

definition schema_request :: jsstring where
  "schema_request = [36755, 20986, 20197, 19979, 74, 83, 79, 78, 32467, 26500]"

text \<open>
  The texts that the caller supplies and \<open>generateNarrative\<close> copies into the prompt: the
  host's extra prompt, the parser output of the last round and the player decisions.
\<close>

definition caller_texts :: "NarrativeRequest \<Rightarrow> jsstring list" where
  "caller_texts request =
     (case n_prompt request of None \<Rightarrow> [] | Some p \<Rightarrow> [p])
     @ (case n_previousParserOutput request of None \<Rightarrow> [] | Some p \<Rightarrow> [p])
     @ (case n_playerDecisions request of None \<Rightarrow> [] | Some ds \<Rightarrow> ds)"

text \<open>A host who pastes the parser prompt into the extra prompt of an initialisation.\<close>

definition pasted_request :: NarrativeRequest where
  "pasted_request =
     \<lparr>n_type = InitRequest, n_prompt = Some PARSER_PROMPT, n_previousParserOutput = None,
      n_playerDecisions = None, n_currentRound = None\<rparr>"

text \<open>
  A text is free of the schema request, and a text is free of it and ends with a line
  feed or a space (or is empty). Neither character occurs in the schema request, so no
  occurrence of the request can reach across the end of such a text.
\<close>

definition clean :: "jsstring \<Rightarrow> bool" where
  "clean w \<longleftrightarrow> \<not> sublist schema_request w"

definition closed_clean :: "jsstring \<Rightarrow> bool" where
  "closed_clean w \<longleftrightarrow> clean w \<and> (w = [] \<or> last w = 10 \<or> last w = 32)"

section \<open>Properties of the retry executor\<close>

lemma isNetworkError_iff: "isNetworkError e \<longleftrightarrow> connection_class e"
  by (auto simp: isNetworkError_def connection_class_def code_is_def)

lemma callAI_loop_failures:
  assumes "n < retries" and "\<forall>i. a \<le> i \<and> i \<le> n \<longrightarrow> tryBody i = Inl (errs i)"
    and "a \<le> Suc n" and "1 \<le> a"
  shows "callAI_loop tryBody retries a lastError tr =
         callAI_loop tryBody retries (Suc n)
           (if a \<le> n then Some (errs n) else lastError)
           (tr @ concat (map (failed_attempt errs) [a..<Suc n]))"
  using assms
proof (induction "Suc n - a" arbitrary: a lastError tr)
  case 0
  then have "a = Suc n" by simp
  then show ?case by simp
next
  case (Suc k)
  then have a: "a \<le> n" by simp
  with Suc.prems have fail: "tryBody a = Inl (errs a)" and lt: "a < retries" "a \<le> retries"
    by auto
  have step: "callAI_loop tryBody retries a lastError tr =
        callAI_loop tryBody retries (Suc a) (Some (errs a)) (tr @ failed_attempt errs a)"
    by (subst callAI_loop.simps)
       (simp add: fail lt failed_attempt_def retryDelay_def isNetworkError_iff)
  have "k = Suc n - Suc a" using Suc.hyps by simp
  from Suc.hyps(1)[OF this, of "Some (errs a)" "tr @ failed_attempt errs a"] Suc.prems a
  have "callAI_loop tryBody retries (Suc a) (Some (errs a)) (tr @ failed_attempt errs a) =
        callAI_loop tryBody retries (Suc n)
          (if Suc a \<le> n then Some (errs n) else Some (errs a))
          ((tr @ failed_attempt errs a) @ concat (map (failed_attempt errs) [Suc a..<Suc n]))"
    by simp
  moreover have "(if Suc a \<le> n then Some (errs n) else Some (errs a)) = Some (errs n)"
    using a by (cases "a = n") auto
  moreover have "[a..<Suc n] = a # [Suc a..<Suc n]"
    using a by (simp add: upt_conv_Cons)
  ultimately show ?case using step a by simp
qed

lemma callAI_loop_extends:
  "\<exists>rest. snd (callAI_loop tryBody retries a lastError tr) = tr @ rest"
proof (induction tryBody retries a lastError tr rule: callAI_loop.induct)
  case (1 tryBody retries attempt lastError tr)
  show ?case
  proof (cases "attempt \<le> retries")
    case False
    then show ?thesis by (subst callAI_loop.simps) simp
  next
    case True
    show ?thesis
    proof (cases "tryBody attempt")
      case (Inr parsed)
      then show ?thesis using True by (subst callAI_loop.simps) simp
    next
      case (Inl error)
      from 1[OF True Inl refl refl] obtain rest where
        "snd (callAI_loop tryBody retries (attempt + 1) (Some error)
               (if attempt < retries
                then (tr @ [Attempt attempt, Warn attempt (errorMessage error)])
                       @ [Sleep (retryDelay error attempt)]
                else tr @ [Attempt attempt, Warn attempt (errorMessage error)]))
         = (if attempt < retries
                then (tr @ [Attempt attempt, Warn attempt (errorMessage error)])
                       @ [Sleep (retryDelay error attempt)]
                else tr @ [Attempt attempt, Warn attempt (errorMessage error)]) @ rest"
        by blast
      then show ?thesis using True Inl
        by (subst callAI_loop.simps) (auto simp: Let_def)
    qed
  qed
qed

lemma callAI_loop_next_attempt:
  assumes "a \<le> retries"
  shows "\<exists>rest. snd (callAI_loop tryBody retries a lastError tr) = tr @ Attempt a # rest"
proof (cases "tryBody a")
  case (Inr parsed)
  then show ?thesis using assms by (subst callAI_loop.simps) simp
next
  case (Inl error)
  let ?tr2 = "(if a < retries
                then (tr @ [Attempt a, Warn a (errorMessage error)])
                       @ [Sleep (retryDelay error a)]
                else tr @ [Attempt a, Warn a (errorMessage error)])"
  obtain rest where "snd (callAI_loop tryBody retries (a + 1) (Some error) ?tr2) = ?tr2 @ rest"
    using callAI_loop_extends by blast
  then show ?thesis using assms Inl
    by (subst callAI_loop.simps) (auto simp: Let_def)
qed

text \<open>
  Claim C1. When the first \<open>n\<close> attempts of \<open>callAI\<close> fail and \<open>n\<close> is below the
  number of attempts allowed, the call has issued attempt \<open>i\<close>, logged the failure and
  slept \<open>min (base * 2^(i-1)) 30000\<close> ms for each \<open>i\<close> up to \<open>n\<close>, with base 3000 for a
  connection-class error and 1000 for any other, and then issues attempt \<open>n + 1\<close>: every
  class of failure is retried in the same way.
\<close>

theorem callAI_backoff_schedule:
  assumes "endpoint \<noteq> None" and "endpoint \<noteq> Some []"
    and "1 \<le> n" and "n < retries"
    and "\<forall>i. 1 \<le> i \<and> i \<le> n \<longrightarrow> tryBody i = Inl (errs i)"
  shows "\<exists>rest. snd (callAI endpoint retries tryBody) =
           concat (map (failed_attempt errs) [1..<Suc n]) @ Attempt (Suc n) # rest"
proof -
  have "callAI_loop tryBody retries 1 None [] =
        callAI_loop tryBody retries (Suc n) (Some (errs n))
          (concat (map (failed_attempt errs) [1..<Suc n]))"
    using callAI_loop_failures[of n retries 1 tryBody errs None "[]"] assms by simp
  moreover have "Suc n \<le> retries" using assms(4) by simp
  from callAI_loop_next_attempt[OF this] obtain rest where
    "snd (callAI_loop tryBody retries (Suc n) (Some (errs n))
          (concat (map (failed_attempt errs) [1..<Suc n])))
     = concat (map (failed_attempt errs) [1..<Suc n]) @ Attempt (Suc n) # rest"
    by blast
  ultimately have "snd (callAI_loop tryBody retries 1 None []) =
      concat (map (failed_attempt errs) [1..<Suc n]) @ Attempt (Suc n) # rest"
    by simp
  then show ?thesis using assms(1,2)
    by (auto simp: callAI_def split: prod.splits sum.splits)
qed

text \<open>
  The schedule on a sample run of five allowed attempts whose first three fail: 3000 ms
  after the connection reset, then 2000 ms and 4000 ms after the HTTP errors.
\<close>

theorem callAI_backoff_schedule_witness:
  "\<exists>rest. snd (callAI (Some (asc ''https://api'')) 5
                    (\<lambda>i. Inl (reset_then_plain i) :: js_error + unit)) =
     [Attempt 1, Warn 1 (errorMessage (reset_then_plain 1)), Sleep 3000,
      Attempt 2, Warn 2 (errorMessage (reset_then_plain 2)), Sleep 2000,
      Attempt 3, Warn 3 (errorMessage (reset_then_plain 3)), Sleep 4000] @ Attempt 4 # rest"
proof -
  have c1: "connection_class (reset_then_plain 1)"
    by (simp add: connection_class_def reset_then_plain_def code_is_def)
  have c2: "\<not> connection_class (reset_then_plain i)" if "i \<noteq> 1" for i
    using that
    by (simp add: connection_class_def reset_then_plain_def code_is_def message_includes_def
        str_includes_def asc_def sublist_Cons_right)
  have ups: "[1..<Suc 3] = [1, 2, 3]"
    by (simp add: upt_rec)
  have sched: "concat (map (failed_attempt reset_then_plain) [1..<Suc 3]) =
     [Attempt 1, Warn 1 (errorMessage (reset_then_plain 1)), Sleep 3000,
      Attempt 2, Warn 2 (errorMessage (reset_then_plain 2)), Sleep 2000,
      Attempt 3, Warn 3 (errorMessage (reset_then_plain 3)), Sleep 4000]"
    unfolding ups using c1 by (simp add: failed_attempt_def c2)
  have "\<exists>rest. snd (callAI (Some (asc ''https://api'')) 5
                         (\<lambda>i. Inl (reset_then_plain i) :: js_error + unit)) =
     concat (map (failed_attempt reset_then_plain) [1..<Suc 3]) @ Attempt (Suc 3) # rest"
    by (rule callAI_backoff_schedule) (simp_all add: asc_def)
  then show ?thesis unfolding sched by simp
qed

section \<open>Properties of the Lorebook engine\<close>

lemma isTriggered_iff:
  "isTriggered p e \<longleftrightarrow> (\<exists>keyword \<in> set (keywords e). sublist keyword p)"
  by (simp add: isTriggered_def list_ex_iff str_includes_def)

lemma fires_code: "fires p e \<longleftrightarrow> enabled e \<and> isTriggered p e \<and> \<not> limitReached e"
  by (auto simp: fires_def isTriggered_iff limitReached_def split: option.splits)

lemma scanEntries_eq:
  "scanEntries p es =
     (map activate (filter (fires p) es), map (\<lambda>e. if fires p e then activate e else e) es)"
  by (induction es) (auto simp: fires_code activate_def Let_def)

lemma sample_keyword_match:
  "isTriggered (asc ''Acme builds'') zero_limit_entry"
  "isTriggered (asc ''Acme builds'') twice_entry"
  "isTriggered (asc ''Acme builds'') (activate twice_entry)"
  by (simp_all add: isTriggered_def zero_limit_entry_def twice_entry_def activate_def
      str_includes_def asc_def sublist_Cons_right)

text \<open>
  Claim C7 as stated fails where \<open>maxActivations\<close> is set to zero: the stated rule says
  the entry cannot fire (its count, zero, has reached the limit), and the code fires it
  and counts the activation.
\<close>

theorem lore_trigger_zero_limit_counterexample:
  "\<not> fires_as_specified (asc ''Acme builds'') zero_limit_entry
   \<and> scanEntries (asc ''Acme builds'') [zero_limit_entry] =
       ([zero_limit_entry\<lparr>activationCount := Some 1\<rparr>],
        [zero_limit_entry\<lparr>activationCount := Some 1\<rparr>])"
proof
  show "\<not> fires_as_specified (asc ''Acme builds'') zero_limit_entry"
    by (simp add: fires_as_specified_def zero_limit_entry_def activations_def)
  have "\<not> limitReached zero_limit_entry" "enabled zero_limit_entry"
    "activations zero_limit_entry = 0"
    by (simp_all add: limitReached_def zero_limit_entry_def activations_def)
  then show "scanEntries (asc ''Acme builds'') [zero_limit_entry] =
       ([zero_limit_entry\<lparr>activationCount := Some 1\<rparr>],
        [zero_limit_entry\<lparr>activationCount := Some 1\<rparr>])"
    using sample_keyword_match(1) by (simp add: Let_def)
qed

text \<open>
  Claim C7, amended. An entry fires in \<open>getTriggeredLoreEntries\<close> exactly when it is
  enabled, one of its keywords is a substring of the prompt text, and \<open>maxActivations\<close> is
  unset, zero, or above the entry's \<open>activationCount\<close>. The triggered entries are the
  entries that fire, in the order of the cache; each firing adds exactly one to the
  entry's \<open>activationCount\<close> in the session's cache, and no other entry changes.
\<close>

theorem lore_trigger_rule:
  "scanEntries p es =
     (map activate (filter (fires p) es), map (\<lambda>e. if fires p e then activate e else e) es)
   \<and> snd (getTriggeredLoreEntries cache sid p limit) sid =
       map_option (map (\<lambda>e. if fires p e then activate e else e)) (cache sid)"
proof (intro conjI)
  show "scanEntries p es =
     (map activate (filter (fires p) es), map (\<lambda>e. if fires p e then activate e else e) es)"
    by (rule scanEntries_eq)
  show "snd (getTriggeredLoreEntries cache sid p limit) sid =
       map_option (map (\<lambda>e. if fires p e then activate e else e)) (cache sid)"
  proof (cases "cache sid")
    case None
    then show ?thesis by (simp add: getTriggeredLoreEntries_def)
  next
    case (Some entries)
    show ?thesis
    proof (cases "entries = []")
      case True
      with Some show ?thesis by (simp add: getTriggeredLoreEntries_def)
    next
      case False
      with Some show ?thesis
        by (simp add: getTriggeredLoreEntries_def scanEntries_eq Let_def)
    qed
  qed
qed

text \<open>
  The rule on a sample cache: the entry with limit zero and the entry with one of two
  activations used fire; the entry that has used both of its activations does not.
\<close>

theorem lore_trigger_rule_witness:
  "scanEntries (asc ''Acme builds'') [zero_limit_entry, twice_entry, activate twice_entry] =
     ([activate zero_limit_entry, activate twice_entry],
      [activate zero_limit_entry, activate twice_entry, activate twice_entry])
   \<and> activationCount (activate zero_limit_entry) = Some 1
   \<and> activationCount (activate twice_entry) = Some 2
   \<and> snd (getTriggeredLoreEntries
            [asc ''s1'' \<mapsto> [zero_limit_entry, twice_entry, activate twice_entry]]
            (asc ''s1'') (asc ''Acme builds'') 2000) (asc ''s1'') =
       Some [activate zero_limit_entry, activate twice_entry, activate twice_entry]"
proof -
  have f: "fires (asc ''Acme builds'') zero_limit_entry"
    "fires (asc ''Acme builds'') twice_entry"
    "\<not> fires (asc ''Acme builds'') (activate twice_entry)"
    unfolding fires_code using sample_keyword_match
    by (simp_all add: limitReached_def zero_limit_entry_def twice_entry_def activate_def
        activations_def)
  have c: "activationCount (activate zero_limit_entry) = Some 1"
    "activationCount (activate twice_entry) = Some 2"
    by (simp_all add: activate_def activations_def zero_limit_entry_def twice_entry_def)
  show ?thesis
    using lore_trigger_rule [of "asc ''Acme builds''"
        "[zero_limit_entry, twice_entry, activate twice_entry]"
        "[asc ''s1'' \<mapsto> [zero_limit_entry, twice_entry, activate twice_entry]]"
        "asc ''s1''" 2000] f c
    by simp
qed

section \<open>Properties of the history manager\<close>

subsection \<open>Store errors\<close>

text \<open>
  Claim C4. No error of the history store leaves the history manager.
  \<open>getConversationHistory\<close> always returns a message list, and when the query throws it
  logs the error and returns the empty list. \<open>saveConversationHistory\<close> always returns,
  and when the insert throws it logs the error and does not rethrow it.
\<close>

theorem history_store_errors_contained:
  "(\<exists>ms. fst (getConversationHistory findMany sid r cfg) = Inr ms)
   \<and> (history_enabled (mergeHistoryConfig defaultHistoryConfig cfg)
        \<and> findMany sid (max 1 (r - maxRounds (mergeHistoryConfig defaultHistoryConfig cfg))) r
            = Inl err
      \<longrightarrow> getConversationHistory findMany sid r cfg =
            (Inr [], [LogError (asc ''Failed to get conversation history'') (emessage err)]))
   \<and> fst (saveConversationHistory createMany sid r msgs) = Inr ()
   \<and> (createMany (historyRecords sid r msgs) = Inl err'
      \<longrightarrow> saveConversationHistory createMany sid r msgs =
            (Inr (), [LogError (asc ''Failed to save conversation history'') (emessage err')]))"
  by (auto simp: getConversationHistory_def saveConversationHistory_def try_catch_def Let_def
      split: sum.splits)

text \<open>
  With the store down in round 3 of a session, retrieval gives the empty history and an
  error log entry, and saving returns after logging.
\<close>

theorem history_store_errors_contained_witness:
  "getConversationHistory (\<lambda>s lo hi. Inl store_down) (asc ''s1'') 3
       \<lparr>p_enabled = None, p_maxRounds = None, p_maxTokens = None,
        p_summarizeOldRounds = None\<rparr> =
     (Inr [], [LogError (asc ''Failed to get conversation history'')
                 (Some (asc ''Cannot reach database server''))])
   \<and> saveConversationHistory (\<lambda>rows. Inl store_down) (asc ''s1'') 3 sample_round1 =
     (Inr (), [LogError (asc ''Failed to save conversation history'')
                 (Some (asc ''Cannot reach database server''))])"
  using history_store_errors_contained
    [of "\<lambda>s lo hi. Inl store_down" "asc ''s1''" 3
        "\<lparr>p_enabled = None, p_maxRounds = None, p_maxTokens = None,
          p_summarizeOldRounds = None\<rparr>"
        store_down "\<lambda>rows. Inl store_down" sample_round1 store_down]
  by (simp add: mergeHistoryConfig_def defaultHistoryConfig_def store_down_def)

subsection \<open>Compression\<close>

lemmas budget_eval = fits_budget_def round_to_double_def bitlen_nat.simps frac_ge_def
  scale_frac_def Let_def

lemmas token_eval = messagesTokens_def estimateTokenCount_def is_cjk_def is_ascii_letter_def
  is_digit_def asc_def Let_def

lemma sample_budget:
  "fits_budget 6 20" "\<not> fits_budget 22 20" "fits_budget 10 20" "fits_budget 13 20"
  by (simp_all add: budget_eval)

lemma sample_tokens:
  "messagesTokens sample_round1 = 4" "messagesTokens sample_round2 = 16"
  "messagesTokens sample_round3 = 6"
  by (simp_all add: token_eval sample_round1_def sample_round2_def sample_round3_def)

lemma sample_summary: "summarizeRound sample_round2 = [31532, 50, 22238, 21512, 58, 32]"
  by (simp add: summarizeRound_def sample_round2_def first_content_def keyEvents_try_def
      asc_def is_js_space_def is_digit_def fence_def lower_ascii_def)

lemma sample_groups:
  "groupRounds (sample_round1 @ sample_round2 @ sample_round3) [] =
     [sample_round1, sample_round2, sample_round3]"
  "groupRounds (sample_round2 @ sample_round3) [] = [sample_round2, sample_round3]"
  by (simp_all add: sample_round1_def sample_round2_def sample_round3_def)

text \<open>
  Claim C5 says that once a round does not fit the budget, every older round is replaced
  by a synopsis, and that a synopsis carries event keywords or the start of the reply.
  The code comments say the same (keep the most recent complete rounds, summarise the
  old ones). The loop has no exit, though: with \<open>maxTokens = 20\<close> (budget 14) and rounds of
  4, 16 and 6 tokens, round 3 is kept, round 2 is summarised, and the older round 1 is
  kept in full again, after the synopsis of round 2. The synopsis of round 2 is "round 2: "
  with nothing after it, since the reply has no fenced JSON block.
\<close>

theorem compressHistory_keeps_older_round:
  "compressHistory (sample_round1 @ sample_round2 @ sample_round3) 20 =
     \<lparr>role = System, content = summaryHeader @ [31532, 50, 22238, 21512, 58, 32]\<rparr>
       # sample_round1 @ sample_round3"
proof -
  have newest: "compressLoop 20 [sample_round3, sample_round2, sample_round1] [] 0 [] =
                compressLoop 20 [sample_round2, sample_round1] sample_round3 6 []"
    by (simp add: sample_tokens sample_budget)
  have middle: "compressLoop 20 [sample_round2, sample_round1] sample_round3 6 [] =
                compressLoop 20 [sample_round1] sample_round3 6
                  [[31532, 50, 22238, 21512, 58, 32]]"
    by (simp add: sample_tokens sample_budget sample_summary)
  have oldest: "compressLoop 20 [sample_round1] sample_round3 6
                  [[31532, 50, 22238, 21512, 58, 32]] =
                (sample_round1 @ sample_round3, [[31532, 50, 22238, 21512, 58, 32]])"
    by (simp add: sample_tokens sample_budget)
  have loop: "compressLoop 20
                (rev (groupRounds (sample_round1 @ sample_round2 @ sample_round3) [])) [] 0 [] =
              (sample_round1 @ sample_round3, [[31532, 50, 22238, 21512, 58, 32]])"
    unfolding sample_groups by (simp only: rev.simps append.simps newest middle oldest)
  show ?thesis
    by (simp add: compressHistory_def loop)
qed

lemma groupRounds_concat: "concat (groupRounds ms cur) = cur @ ms"
  by (induction ms arbitrary: cur) auto

lemma messagesTokens_concat:
  "messagesTokens (concat rs) = sum_list (map messagesTokens rs)"
  by (induction rs) (auto simp: messagesTokens_def)

lemma fits_budget_mono: "fits_budget b limit \<Longrightarrow> a \<le> b \<Longrightarrow> fits_budget a limit"
proof -
  assume b: "fits_budget b limit" and le: "a \<le> b"
  show ?thesis
  proof (cases "round_to_double False (limit * 6305039478318694, 2 ^ 53)")
    case (Finite neg m u)
    obtain N D where nd: "scale_frac 2 (m, 1) u = (N, D)"
      by (cases "scale_frac 2 (m, 1) u")
    from b Finite nd have "b * D \<le> N" by (simp add: fits_budget_def)
    moreover have "a * D \<le> b * D" using le by (rule mult_le_mono1)
    ultimately have "a * D \<le> N" by (rule order_trans [rotated])
    then show ?thesis using Finite nd by (simp add: fits_budget_def)
  next
    case (Infinite neg)
    then show ?thesis by (simp add: fits_budget_def)
  qed
qed

lemma compressLoop_all_fit:
  "fits_budget (cur + sum_list (map messagesTokens rs)) limit \<Longrightarrow>
   compressLoop limit rs result cur sums = (concat (rev rs) @ result, sums)"
proof (induction rs arbitrary: result cur)
  case Nil
  then show ?case by simp
next
  case (Cons r rs)
  have "fits_budget (cur + messagesTokens r) limit"
    by (rule fits_budget_mono [OF Cons.prems]) simp
  moreover have "fits_budget ((cur + messagesTokens r) + sum_list (map messagesTokens rs)) limit"
    using Cons.prems by (simp add: add.assoc)
  ultimately show ?case using Cons.IH by (simp add: Let_def)
qed

lemma compressHistory_within_budget:
  assumes "fits_budget (messagesTokens ms) limit"
  shows "compressHistory ms limit = ms"
proof -
  have "sum_list (map messagesTokens (rev (groupRounds ms []))) = messagesTokens ms"
    using messagesTokens_concat [of "groupRounds ms []"]
    by (simp add: groupRounds_concat rev_map [symmetric])
  with assms have "compressLoop limit (rev (groupRounds ms [])) [] 0 [] = (ms, [])"
    using compressLoop_all_fit [of 0 "rev (groupRounds ms [])" limit "[]" "[]"]
    by (simp add: groupRounds_concat)
  then show ?thesis by (simp add: compressHistory_def)
qed

text \<open>
  Claim C6. The budget of \<open>compressHistory\<close> is \<open>maxTokens * 0.7\<close>. When a list that
  \<open>compressHistory\<close> returned has an estimated total within that budget, compressing it
  again with the same \<open>maxTokens\<close> returns the same list; its message count is not
  reduced.
\<close>

theorem compressHistory_idempotent_count:
  assumes "compressed = compressHistory messages limit"
    and "fits_budget (messagesTokens compressed) limit"
  shows "length compressed \<le> length (compressHistory compressed limit)
         \<and> compressHistory compressed limit = compressed"
  using compressHistory_within_budget [OF assms(2)] by simp

lemma sample_compressed:
  "compressHistory (sample_round2 @ sample_round3) 20 =
     \<lparr>role = System, content = summaryHeader @ [31532, 50, 22238, 21512, 58, 32]\<rparr>
       # sample_round3"
  by (simp add: compressHistory_def sample_groups sample_tokens sample_budget sample_summary)

lemma sample_compressed_tokens:
  "messagesTokens
     (\<lparr>role = System, content = summaryHeader @ [31532, 50, 22238, 21512, 58, 32]\<rparr>
        # sample_round3) = 13"
  by (simp add: token_eval summaryHeader_def sample_round3_def)

text \<open>
  Rounds 2 and 3 of the sample compress to a summary and round 3, 13 tokens in all and
  within the budget of 14; a second compression leaves the three messages as they are.
\<close>

theorem compressHistory_idempotent_count_witness:
  "fits_budget (messagesTokens (compressHistory (sample_round2 @ sample_round3) 20)) 20
   \<and> length (compressHistory (sample_round2 @ sample_round3) 20) = 3
   \<and> compressHistory (compressHistory (sample_round2 @ sample_round3) 20) 20 =
       compressHistory (sample_round2 @ sample_round3) 20"
proof -
  have fits: "fits_budget (messagesTokens (compressHistory (sample_round2 @ sample_round3) 20)) 20"
    by (simp only: sample_compressed sample_compressed_tokens sample_budget)
  have len: "length (compressHistory (sample_round2 @ sample_round3) 20) = 3"
    unfolding sample_compressed by (simp add: sample_round3_def)
  from compressHistory_idempotent_count [OF refl fits] fits len show ?thesis by simp
qed

text \<open>
  The hypothesis of the last theorem is the budget \<open>maxTokens * 0.7\<close>, not \<open>maxTokens\<close>.
  Between the two a second call can still shrink a compressed list: with a longer reply
  in round 3 the compressed list has 15 tokens, above the budget of 14 and below
  \<open>maxTokens = 20\<close>; the summary message then forms one group with round 3, the group
  does not fit, and the three messages become one. \<open>getConversationHistory\<close> does not
  make this second call, since it compresses only above \<open>maxTokens\<close>.
\<close>

lemma sample_round3_long:
  "messagesTokens sample_round3_long = 8"
  "groupRounds (sample_round2 @ sample_round3_long) [] = [sample_round2, sample_round3_long]"
  "fits_budget 8 20" "\<not> fits_budget 24 20" "\<not> fits_budget 15 20"
  by (simp_all add: token_eval sample_round3_long_def sample_round2_def budget_eval)

lemma compressHistory_shrinks_above_budget:
  "compressHistory (sample_round2 @ sample_round3_long) 20 =
     \<lparr>role = System, content = summaryHeader @ [31532, 50, 22238, 21512, 58, 32]\<rparr>
       # sample_round3_long
   \<and> messagesTokens (compressHistory (sample_round2 @ sample_round3_long) 20) = 15
   \<and> compressHistory (compressHistory (sample_round2 @ sample_round3_long) 20) 20 =
       [\<lparr>role = System, content = summaryHeader @ [31532, 51, 22238, 21512, 58, 32]\<rparr>]"
proof -
  let ?summary = "\<lparr>role = System,
                   content = summaryHeader @ [31532, 50, 22238, 21512, 58, 32]\<rparr>"
  have first: "compressHistory (sample_round2 @ sample_round3_long) 20 =
                 ?summary # sample_round3_long"
    by (simp add: compressHistory_def sample_round3_long sample_tokens sample_summary)
  have tokens: "messagesTokens (?summary # sample_round3_long) = 15"
    by (simp add: token_eval summaryHeader_def sample_round3_long_def)
  have group: "groupRounds (?summary # sample_round3_long) [] = [?summary # sample_round3_long]"
    by (simp add: sample_round3_long_def)
  have synopsis: "summarizeRound (?summary # sample_round3_long) =
                    [31532, 51, 22238, 21512, 58, 32]"
    by (simp add: summarizeRound_def sample_round3_long_def first_content_def keyEvents_try_def
        asc_def is_js_space_def is_digit_def fence_def lower_ascii_def)
  have loop: "compressLoop 20 [?summary # sample_round3_long] [] 0 [] =
                ([], [[31532, 51, 22238, 21512, 58, 32]])"
    unfolding compressLoop.simps tokens synopsis by (simp add: sample_round3_long)
  have second: "compressHistory (?summary # sample_round3_long) 20 =
      [\<lparr>role = System, content = summaryHeader @ [31532, 51, 22238, 21512, 58, 32]\<rparr>]"
    unfolding compressHistory_def Let_def group
    by (simp only: rev.simps append.simps loop) simp
  show ?thesis by (simp only: first tokens second simp_thms)
qed

section \<open>Properties of the response extractor\<close>

lemmas parse_numeral =
  parse_value.simps(2) [of "pred_numeral k" for k, folded numeral_eq_Suc]
  parse_elements.simps(2) [of "pred_numeral k" for k, folded numeral_eq_Suc]
  parse_members.simps(2) [of "pred_numeral k" for k, folded numeral_eq_Suc]

lemmas json_eval = JSON_parse_def parse_numeral skip_ws_def is_json_ws_def asc_def
  trim_def is_js_space_def

lemmas eval_cong = list.case_cong_weak option.case_cong_weak sum.case_cong_weak
  prod.case_cong_weak

lemma nat_to_string_digits: "nat_to_string n \<noteq> [] \<and> list_all is_digit (nat_to_string n)"
proof (induction n rule: nat_to_string.induct)
  case (1 n)
  show ?case
  proof (cases "n < 10")
    case True
    then show ?thesis by (subst (1 2) nat_to_string.simps) (simp add: is_digit_def)
  next
    case False
    have "n mod 10 < 10" by simp
    then have "is_digit (48 + n mod 10)" by (simp add: is_digit_def)
    with False 1 show ?thesis by (subst (1 2) nat_to_string.simps) simp
  qed
qed

lemma index_keys_digits:
  assumes "k \<in> fst ` set (zip (map nat_to_string [0..<n]) xs)"
  shows "k \<noteq> [] \<and> is_digit (hd k)"
proof -
  from assms obtain x where "(k, x) \<in> set (zip (map nat_to_string [0..<n]) xs)" by auto
  then have "k \<in> set (map nat_to_string [0..<n])" by (rule set_zip_leftD)
  then obtain i where "k = nat_to_string i" by auto
  with nat_to_string_digits [of i] show ?thesis by (cases "nat_to_string i") auto
qed

lemma own_property_append:
  assumes "k \<notin> fst ` set ms2"
  shows "own_property (ms1 @ ms2) k = own_property ms1 k"
proof -
  have "map_of (rev ms2) k = None" using assms by (simp add: map_of_eq_None_iff)
  then show ?thesis by (simp add: own_property_def map_add_def)
qed

lemma name_not_index:
  "asc ''narrative'' \<notin> fst ` set (zip (map nat_to_string [0..<n]) xs)"
  "asc ''outcomes'' \<notin> fst ` set (zip (map nat_to_string [0..<n]) xs)"
  "asc ''events'' \<notin> fst ` set (zip (map nat_to_string [0..<n]) xs)"
  using index_keys_digits [of "asc ''narrative''" n xs]
    index_keys_digits [of "asc ''outcomes''" n xs] index_keys_digits [of "asc ''events''" n xs]
  by (auto simp: asc_def is_digit_def)

lemma narrative_try_array:
  assumes "narrative_try raw cap = Inr (Some r)"
    and "\<forall>ms. JSON_parse (trim cap) \<noteq> Inr (JObj ms)"
  shows "degraded raw r"
proof -
  from assms(1) obtain parsed where p: "JSON_parse (trim cap) = Inr parsed"
    by (cases "JSON_parse (trim cap)") (auto simp: narrative_try_def)
  with assms(1) have t: "truthy parsed" "typeof_object parsed"
    by (auto simp: narrative_try_def split: if_splits)
  with assms(2) p obtain xs where xs: "parsed = JArr xs"
    by (cases parsed) (auto simp: typeof_object_def truthy_def)
  let ?base = "[(asc ''narrative'', JStr raw), (asc ''outcomes'', JArr []),
                (asc ''events'', JArr []), (asc ''nextRoundHints'', JUndefined)]"
  let ?idx = "zip (map nat_to_string [0..<length xs]) xs"
  have r: "r = JObj (?base @ ?idx)"
    using assms(1) p xs
    by (simp add: narrative_try_def truthy_def typeof_object_def get_prop_def
        mapEntityPanelsToOutcomes_def mapTurnEvents_def spread_members_def)
  have "own_property (?base @ ?idx) (asc ''narrative'') = own_property ?base (asc ''narrative'')"
    "own_property (?base @ ?idx) (asc ''outcomes'') = own_property ?base (asc ''outcomes'')"
    "own_property (?base @ ?idx) (asc ''events'') = own_property ?base (asc ''events'')"
    by (rule own_property_append, rule name_not_index)+
  moreover have "own_property ?base (asc ''narrative'') = Some (JStr raw)"
    "own_property ?base (asc ''outcomes'') = Some (JArr [])"
    "own_property ?base (asc ''events'') = Some (JArr [])"
    by (simp_all add: own_property_def asc_def)
  ultimately show ?thesis
    unfolding degraded_def result_prop_def r by simp
qed

lemma narrative_pattern_array:
  assumes "narrative_pattern raw capture = Some r"
    and "\<forall>cap. capture = Some cap \<longrightarrow> (\<forall>ms. JSON_parse (trim cap) \<noteq> Inr (JObj ms))"
  shows "degraded raw r"
proof -
  from assms(1) obtain cap where c: "capture = Some cap" "narrative_try raw cap = Inr (Some r)"
    by (auto simp: narrative_pattern_def split: option.splits if_splits sum.splits)
  with assms(2) show ?thesis using narrative_try_array by blast
qed

lemma captures_member:
  "match_json_fence raw = Some cap \<Longrightarrow> cap \<in> set (captures raw)"
  "match_fence raw = Some cap \<Longrightarrow> cap \<in> set (captures raw)"
  "match_braces raw = Some cap \<Longrightarrow> cap \<in> set (captures raw)"
  by (simp_all add: captures_def)

text \<open>
  Claim C8. When none of the three extraction patterns yields a text that parses as a
  JSON object, \<open>parseNarrativeResponse\<close> returns an object whose narrative is the entire
  raw text and whose outcomes and events are empty arrays. The function returns on every
  input: whatever \<open>JSON.parse\<close> or the mapping of a parsed block throws is caught in the
  loop.
\<close>

theorem parseNarrativeResponse_degrades:
  assumes "\<forall>cap \<in> set (captures raw). \<forall>ms. JSON_parse (trim cap) \<noteq> Inr (JObj ms)"
  shows "result_prop (parseNarrativeResponse raw) ''narrative'' = Some (JStr raw)
         \<and> result_prop (parseNarrativeResponse raw) ''outcomes'' = Some (JArr [])
         \<and> result_prop (parseNarrativeResponse raw) ''events'' = Some (JArr [])"
proof -
  have fallback: "degraded raw (JObj [(asc ''narrative'', JStr raw),
      (asc ''outcomes'', JArr []), (asc ''events'', JArr [])])"
    by (simp add: degraded_def result_prop_def own_property_def asc_def)
  have each: "degraded raw r"
    if "narrative_pattern raw capture = Some r"
      and "capture \<in> {match_json_fence raw, match_fence raw, match_braces raw}"
    for capture r
  proof (rule narrative_pattern_array [OF that(1)], rule allI, rule impI)
    fix cap assume "capture = Some cap"
    with that(2) have "cap \<in> set (captures raw)" using captures_member by auto
    with assms show "\<forall>ms. JSON_parse (trim cap) \<noteq> Inr (JObj ms)" by blast
  qed
  have "degraded raw (parseNarrativeResponse raw)"
    unfolding parseNarrativeResponse_def using each fallback
    by (auto split: option.splits)
  then show ?thesis by (simp add: degraded_def)
qed

lemma no_json_captures: "captures no_json_text = [asc ''{no json here}'']"
  by (simp add: captures_def no_json_text_def match_braces_def asc_def fence_def lower_ascii_def)

lemma no_json_parse: "JSON_parse (trim (asc ''{no json here}'')) = Inl SyntaxError"
  by (simp add: json_eval cong: eval_cong)

text \<open>
  On a reply in prose with braces that hold no JSON, the brace pattern matches, the
  parse fails, and the result is the degraded one.
\<close>

theorem parseNarrativeResponse_degrades_witness:
  "captures no_json_text = [asc ''{no json here}'']
   \<and> JSON_parse (trim (asc ''{no json here}'')) = Inl SyntaxError
   \<and> result_prop (parseNarrativeResponse no_json_text) ''narrative'' = Some (JStr no_json_text)
   \<and> result_prop (parseNarrativeResponse no_json_text) ''outcomes'' = Some (JArr [])
   \<and> result_prop (parseNarrativeResponse no_json_text) ''events'' = Some (JArr [])"
proof -
  have h: "\<forall>cap \<in> set (captures no_json_text). \<forall>ms. JSON_parse (trim cap) \<noteq> Inr (JObj ms)"
    by (simp add: no_json_captures no_json_parse)
  from parseNarrativeResponse_degrades [OF h] show ?thesis
    by (simp add: no_json_captures no_json_parse)
qed

section \<open>Properties of the parser call\<close>

lemma panel_try_iff:
  "panel_try cap = Inr (Some v) \<longleftrightarrow>
     (\<exists>ms p. JSON_parse (trim cap) = Inr (JObj ms) \<and> v = JObj ms
            \<and> own_property ms (asc ''perEntityPanel'') = Some p \<and> truthy p)"
proof (cases "JSON_parse (trim cap)")
  case (Inl e)
  then show ?thesis by (simp add: panel_try_def)
next
  case (Inr parsed)
  then show ?thesis
    by (cases parsed)
       (auto simp: panel_try_def truthy_def typeof_object_def get_prop_def
             split: option.splits)
qed

lemma panel_pattern_iff:
  "panel_pattern capture = Some v \<longleftrightarrow>
     (\<exists>cap. capture = Some cap \<and> cap \<noteq> [] \<and> panel_try cap = Inr (Some v))"
  by (auto simp: panel_pattern_def split: option.splits sum.splits)

lemma captures_cases:
  "cap \<in> set (captures s) \<longleftrightarrow>
     match_json_fence s = Some cap \<or> match_fence s = Some cap \<or> match_braces s = Some cap"
  by (auto simp: captures_def split: option.splits)

lemma block_has_panel_iff:
  "block_has_panel cap \<longleftrightarrow> cap \<noteq> [] \<and> (\<exists>v. panel_try cap = Inr (Some v))"
  by (auto simp: block_has_panel_def panel_try_iff)

lemma extract_iff:
  "extractJsonFromResponse s \<noteq> None \<longleftrightarrow> (\<exists>cap \<in> set (captures s). block_has_panel cap)"
proof
  assume "extractJsonFromResponse s \<noteq> None"
  then obtain capture v where
    "capture \<in> {match_json_fence s, match_fence s, match_braces s}"
    "panel_pattern capture = Some v"
    by (auto simp: extractJsonFromResponse_def split: option.splits)
  then show "\<exists>cap \<in> set (captures s). block_has_panel cap"
    by (auto simp: panel_pattern_iff captures_cases block_has_panel_iff)
next
  assume "\<exists>cap \<in> set (captures s). block_has_panel cap"
  then obtain cap v where c: "cap \<in> set (captures s)" "cap \<noteq> []" "panel_try cap = Inr (Some v)"
    by (auto simp: block_has_panel_iff)
  then have "\<exists>capture \<in> {match_json_fence s, match_fence s, match_braces s}.
      panel_pattern capture \<noteq> None"
    by (auto simp: captures_cases panel_pattern_iff)
  then show "extractJsonFromResponse s \<noteq> None"
    by (auto simp: extractJsonFromResponse_def split: option.splits)
qed

lemma captures_empty: "captures [] = []"
  by (simp add: captures_def match_braces_def)

text \<open>
  Claim C10, amended. The parser call reports \<open>parseSuccess = true\<close> exactly when the
  service answered with a text of which some extracted block (a non-empty capture of one
  of the three patterns) parses as a JSON object with a truthy \<open>perEntityPanel\<close> member.
  A non-empty answer without such a block, for one whose JSON is valid and has no
  \<open>perEntityPanel\<close> or a \<open>null\<close>, \<open>false\<close>, \<open>0\<close> or empty-string one, gives
  \<open>parseSuccess = false\<close> without \<open>panelData\<close>, and \<open>rawText\<close> is the full answer.
\<close>

theorem parseNarrative_parseSuccess:
  "(ps_parseSuccess (parseNarrative post fmt cfg req) = Some True \<longleftrightarrow>
      (\<exists>data s. post (parserHttpRequest fmt cfg req) = Inr data
               \<and> response_content data = JStr s
               \<and> (\<exists>cap \<in> set (captures s). block_has_panel cap)))
   \<and> (post (parserHttpRequest fmt cfg req) = Inr reply \<and> response_content reply = JStr raw
        \<and> raw \<noteq> [] \<and> \<not> (\<exists>cap \<in> set (captures raw). block_has_panel cap)
      \<longrightarrow> parseNarrative post fmt cfg req =
            \<lparr>ps_success = True, ps_rawText = Some raw, ps_panelData = None,
             ps_parseSuccess = Some False, ps_error = None\<rparr>)"
proof (intro conjI impI)
  show "ps_parseSuccess (parseNarrative post fmt cfg req) = Some True \<longleftrightarrow>
      (\<exists>data s. post (parserHttpRequest fmt cfg req) = Inr data
               \<and> response_content data = JStr s
               \<and> (\<exists>cap \<in> set (captures s). block_has_panel cap))"
  proof (cases "post (parserHttpRequest fmt cfg req)")
    case (Inl e)
    then show ?thesis by (simp add: parseNarrative_def)
  next
    case (Inr data)
    show ?thesis
    proof (cases "response_content data")
      case (JStr s)
      show ?thesis
      proof (cases "s = []")
        case True
        with Inr JStr show ?thesis
          by (simp add: parseNarrative_def truthy_def captures_empty)
      next
        case False
        with Inr JStr show ?thesis
          using extract_iff [of s] by (auto simp: parseNarrative_def truthy_def Let_def)
      qed
    qed (use Inr in \<open>auto simp: parseNarrative_def truthy_def Let_def split: if_splits jsnum.splits\<close>)
  qed
next
  assume "post (parserHttpRequest fmt cfg req) = Inr reply \<and> response_content reply = JStr raw
        \<and> raw \<noteq> [] \<and> \<not> (\<exists>cap \<in> set (captures raw). block_has_panel cap)"
  then show "parseNarrative post fmt cfg req =
            \<lparr>ps_success = True, ps_rawText = Some raw, ps_panelData = None,
             ps_parseSuccess = Some False, ps_error = None\<rparr>"
    using extract_iff [of raw] by (auto simp: parseNarrative_def truthy_def Let_def)
qed

lemma null_panel_parse:
  "JSON_parse (trim null_panel_text) = Inr (JObj [(asc ''perEntityPanel'', JNull)])"
  by (simp add: null_panel_text_def json_eval cong: eval_cong)

lemma empty_panel_parse:
  "JSON_parse (trim empty_panel_text) = Inr (JObj [(asc ''perEntityPanel'', JArr [])])"
  by (simp add: empty_panel_text_def json_eval cong: eval_cong)

lemma panel_captures:
  "captures null_panel_text = [null_panel_text]"
  "captures empty_panel_text = [empty_panel_text]"
  by (simp_all add: captures_def null_panel_text_def empty_panel_text_def match_braces_def
      asc_def fence_def lower_ascii_def)

lemma sample_parser_request:
  "sample_post outcome (parserHttpRequest fmt (the (parserConfig sample_body)) req) = outcome"
  by (simp add: sample_post_def parserHttpRequest_def sample_body_def asc_def)

lemma sample_narrative_request:
  "sample_post outcome (narrativeHttpRequest (the (narrativeConfig sample_body)) req) =
     Inr (chat_reply (asc ''Prices fell.''))"
  by (simp add: sample_post_def narrativeHttpRequest_def sample_body_def)

lemma chat_reply_content: "response_content (chat_reply s) = JStr s"
  by (simp add: response_content_def chat_reply_def opt_get_def opt_first_def own_property_def
      asc_def)

text \<open>
  Claim C10 as stated fails on an answer that is a JSON object whose only member is
  \<open>perEntityPanel\<close> with the value \<open>null\<close>: the block parses as a JSON object that
  contains the member, and the call reports \<open>parseSuccess = false\<close>.
\<close>

theorem parseSuccess_null_panel_counterexample:
  "(\<exists>cap \<in> set (captures null_panel_text). block_has_panel_field cap)
   \<and> parseNarrative (sample_post (Inr (chat_reply null_panel_text))) number_to_string
       (the (parserConfig sample_body)) (roundParserRequest sample_body (asc ''Prices fell.'')) =
       \<lparr>ps_success = True, ps_rawText = Some null_panel_text, ps_panelData = None,
        ps_parseSuccess = Some False, ps_error = None\<rparr>"
proof
  have "block_has_panel_field null_panel_text"
    unfolding block_has_panel_field_def null_panel_parse
    by (simp add: own_property_def)
  then show "\<exists>cap \<in> set (captures null_panel_text). block_has_panel_field cap"
    by (simp add: panel_captures)
  have "\<not> block_has_panel null_panel_text"
    unfolding block_has_panel_def null_panel_parse
    by (simp add: own_property_def truthy_def)
  then have "extractJsonFromResponse null_panel_text = None"
    using extract_iff [of null_panel_text] by (simp add: panel_captures)
  moreover have "null_panel_text \<noteq> []" by (simp add: null_panel_text_def)
  ultimately show "parseNarrative (sample_post (Inr (chat_reply null_panel_text))) number_to_string
       (the (parserConfig sample_body)) (roundParserRequest sample_body (asc ''Prices fell.'')) =
       \<lparr>ps_success = True, ps_rawText = Some null_panel_text, ps_panelData = None,
        ps_parseSuccess = Some False, ps_error = None\<rparr>"
    by (simp add: parseNarrative_def sample_parser_request chat_reply_content truthy_def)
qed

text \<open>
  The answer whose \<open>perEntityPanel\<close> is an empty array succeeds; the prose answer
  without JSON fails and keeps its raw text.
\<close>

theorem parseNarrative_parseSuccess_witness:
  "ps_parseSuccess
     (parseNarrative (sample_post (Inr (chat_reply empty_panel_text))) number_to_string
        (the (parserConfig sample_body)) (roundParserRequest sample_body (asc ''Prices fell.'')))
     = Some True
   \<and> parseNarrative (sample_post (Inr (chat_reply no_json_text))) number_to_string
        (the (parserConfig sample_body)) (roundParserRequest sample_body (asc ''Prices fell.'')) =
       \<lparr>ps_success = True, ps_rawText = Some no_json_text, ps_panelData = None,
        ps_parseSuccess = Some False, ps_error = None\<rparr>"
proof -
  let ?cfg = "the (parserConfig sample_body)"
  let ?req = "roundParserRequest sample_body (asc ''Prices fell.'')"
  have "empty_panel_text \<noteq> []" by (simp add: empty_panel_text_def)
  then have yes: "\<exists>cap \<in> set (captures empty_panel_text). block_has_panel cap"
    unfolding panel_captures block_has_panel_def
    by (simp add: empty_panel_parse own_property_def truthy_def)
  have no: "\<not> (\<exists>cap \<in> set (captures no_json_text). block_has_panel cap)"
    unfolding no_json_captures block_has_panel_def
    by (simp add: no_json_parse)
  have ne: "no_json_text \<noteq> []" by (simp add: no_json_text_def asc_def)
  from parseNarrative_parseSuccess
    [of "sample_post (Inr (chat_reply empty_panel_text))" number_to_string ?cfg ?req]
    yes
  have "ps_parseSuccess
     (parseNarrative (sample_post (Inr (chat_reply empty_panel_text))) number_to_string ?cfg ?req)
     = Some True"
    by (simp add: sample_parser_request chat_reply_content)
  moreover from parseNarrative_parseSuccess
    [of "sample_post (Inr (chat_reply no_json_text))" number_to_string ?cfg ?req
        "chat_reply no_json_text" no_json_text]
    no ne
  have "parseNarrative (sample_post (Inr (chat_reply no_json_text))) number_to_string ?cfg ?req =
       \<lparr>ps_success = True, ps_rawText = Some no_json_text, ps_panelData = None,
        ps_parseSuccess = Some False, ps_error = None\<rparr>"
    by (simp add: sample_parser_request chat_reply_content)
  ultimately show ?thesis by simp
qed

section \<open>Properties of the orchestrator\<close>

lemma ps_panelData_None:
  "ps_parseSuccess (parseNarrative post fmt cfg req) \<noteq> Some True \<Longrightarrow>
   ps_panelData (parseNarrative post fmt cfg req) = None"
  by (auto simp: parseNarrative_def Let_def split: sum.splits jsval.splits if_splits)

text \<open>
  Claim C3. In a full-round turn whose configuration is complete, when the narrative
  call fails (no success, or an empty narrative) the route sends the narrative request
  and nothing else, so no parser call is made, and it answers with \<open>success = false\<close>,
  \<open>step = 'narrative'\<close> and the error of the narrative call (or the default text when
  there is none). When the request itself threw, that error is the one that the catch
  block of \<open>generateNarrative\<close> derived from the exception.
\<close>

theorem fullRound_narrative_failure:
  assumes "\<not> config_missing (narrativeConfig body)"
    and "\<not> config_missing (parserConfig body)"
    and "nres = generateNarrative post (the (narrativeConfig body)) (roundNarrativeRequest body)"
    and "\<not> n_success nres \<or> \<not> given (n_narrative nres)"
  shows "fullRound post fmt body =
           ((200, JObj [(asc ''success'', JBool False),
                        (asc ''step'', JStr (asc ''narrative'')),
                        (asc ''error'',
                           JStr (if given (n_error nres) then the (n_error nres)
                                 else narrativeFailed))]),
            [narrativeHttpRequest (the (narrativeConfig body)) (roundNarrativeRequest body)])
         \<and> (\<forall>err. post (narrativeHttpRequest (the (narrativeConfig body))
                          (roundNarrativeRequest body)) = Inl err
                \<longrightarrow> n_error nres = Some (describe_error narrativeFailed err))"
  using assms
  by (auto simp: fullRound_def Let_def string_or_def generateNarrative_def)

lemma sample_configs:
  "\<not> config_missing (narrativeConfig sample_body)" "\<not> config_missing (parserConfig sample_body)"
  by (simp_all add: config_missing_def sample_body_def asc_def)

text \<open>
  With a narrative service that times out, the reply carries "request timed out, please
  retry" and the only request sent is the narrative one.
\<close>

theorem fullRound_narrative_failure_witness:
  "fullRound (\<lambda>r. Inl timeout_error) number_to_string sample_body =
     ((200, JObj [(asc ''success'', JBool False),
                  (asc ''step'', JStr (asc ''narrative'')),
                  (asc ''error'', JStr [35831, 27714, 36229, 26102, 65292, 35831, 37325, 35797])]),
      [narrativeHttpRequest (the (narrativeConfig sample_body))
         (roundNarrativeRequest sample_body)])"
proof -
  let ?nres = "generateNarrative (\<lambda>r. Inl timeout_error) (the (narrativeConfig sample_body))
      (roundNarrativeRequest sample_body)"
  have nres: "?nres = \<lparr>n_success = False, n_narrative = None,
      n_error = Some [35831, 27714, 36229, 26102, 65292, 35831, 37325, 35797]\<rparr>"
    by (simp add: generateNarrative_def describe_error_def timeout_error_def code_is_def)
  then have failed: "\<not> n_success ?nres \<or> \<not> given (n_narrative ?nres)" by simp
  from fullRound_narrative_failure [OF sample_configs refl failed, of number_to_string]
  show ?thesis by (simp add: nres given_def)
qed

text \<open>
  Claim C2, amended. In a full-round turn whose narrative call succeeded, a parser call
  that does not report \<open>parseSuccess = true\<close> leaves the narrative untouched: the reply
  has \<open>success = true\<close>, the exact narrative text, \<open>panelData = null\<close> and a
  \<open>parseError\<close>. When the parser service answered with text that did not parse,
  \<open>parseSuccess\<close> is \<open>false\<close> and \<open>parserRawText\<close> is that text; when the parser call
  itself failed or returned no text, \<open>parseSuccess\<close> and \<open>parserRawText\<close> are
  \<open>undefined\<close>.
\<close>

theorem fullRound_parser_degradation:
  assumes "\<not> config_missing (narrativeConfig body)"
    and "\<not> config_missing (parserConfig body)"
    and "generateNarrative post (the (narrativeConfig body)) (roundNarrativeRequest body) =
           \<lparr>n_success = True, n_narrative = Some story, n_error = e\<rparr>"
    and "story \<noteq> []"
    and "pres = parseNarrative post fmt (the (parserConfig body)) (roundParserRequest body story)"
    and "ps_parseSuccess pres \<noteq> Some True"
  shows "fst (fullRound post fmt body) =
           (200, JObj [(asc ''success'', JBool True),
                       (asc ''narrative'', JStr story),
                       (asc ''parserRawText'', opt_string (ps_rawText pres)),
                       (asc ''panelData'', JNull),
                       (asc ''parseSuccess'',
                          if ps_success pres then JBool False else JUndefined),
                       (asc ''parseError'',
                          JStr [26080, 27861, 35299, 26512, 74, 83, 79, 78, 32467, 26500])])
         \<and> (ps_success pres \<longrightarrow> ps_rawText pres \<noteq> None)
         \<and> (\<not> ps_success pres \<longrightarrow> ps_rawText pres = None)"
proof -
  have panel: "ps_panelData pres = None"
    using assms(5,6) ps_panelData_None by simp
  have shape: "(ps_success pres \<longrightarrow> ps_parseSuccess pres = Some False \<and> ps_rawText pres \<noteq> None)
       \<and> (\<not> ps_success pres \<longrightarrow> ps_parseSuccess pres = None \<and> ps_rawText pres = None)"
    using assms(5,6)
    by (auto simp: parseNarrative_def Let_def split: sum.splits jsval.splits if_splits)
  have "fst (fullRound post fmt body) =
           (200, JObj [(asc ''success'', JBool True),
                       (asc ''narrative'', JStr story),
                       (asc ''parserRawText'', opt_string (ps_rawText pres)),
                       (asc ''panelData'', JNull),
                       (asc ''parseSuccess'',
                          case ps_parseSuccess pres of None \<Rightarrow> JUndefined | Some b \<Rightarrow> JBool b),
                       (asc ''parseError'',
                          JStr [26080, 27861, 35299, 26512, 74, 83, 79, 78, 32467, 26500])])"
    using assms(1-4,6) panel
    by (simp add: fullRound_def Let_def given_def assms(5) [symmetric])
  with shape show ?thesis by (cases "ps_success pres") auto
qed

lemma sample_story:
  "generateNarrative (sample_post outcome) (the (narrativeConfig sample_body))
     (roundNarrativeRequest sample_body) =
   \<lparr>n_success = True, n_narrative = Some (asc ''Prices fell.''), n_error = None\<rparr>"
  by (simp add: generateNarrative_def sample_narrative_request chat_reply_content truthy_def
      trim_def is_js_space_def asc_def)

lemma sample_parser_timeout:
  "parseNarrative (sample_post (Inl timeout_error)) fmt (the (parserConfig sample_body)) req =
   \<lparr>ps_success = False, ps_rawText = None, ps_panelData = None, ps_parseSuccess = None,
    ps_error = Some [35831, 27714, 36229, 26102, 65292, 35831, 37325, 35797]\<rparr>"
  by (simp add: parseNarrative_def sample_parser_request describe_error_def timeout_error_def
      code_is_def)

text \<open>
  Claim C2 as stated fails when the parser request times out: the narrative is
  returned, but \<open>parseSuccess\<close> is \<open>undefined\<close>, not \<open>false\<close>, and there is no raw
  parser text.
\<close>

theorem fullRound_parser_failure_counterexample:
  "fst (fullRound (sample_post (Inl timeout_error)) number_to_string sample_body) =
     (200, JObj [(asc ''success'', JBool True),
                 (asc ''narrative'', JStr (asc ''Prices fell.'')),
                 (asc ''parserRawText'', JUndefined),
                 (asc ''panelData'', JNull),
                 (asc ''parseSuccess'', JUndefined),
                 (asc ''parseError'',
                    JStr [26080, 27861, 35299, 26512, 74, 83, 79, 78, 32467, 26500])])
   \<and> result_prop (snd (fst (fullRound (sample_post (Inl timeout_error)) number_to_string
                               sample_body))) ''parseSuccess'' \<noteq> Some (JBool False)"
proof -
  have "fst (fullRound (sample_post (Inl timeout_error)) number_to_string sample_body) =
     (200, JObj [(asc ''success'', JBool True),
                 (asc ''narrative'', JStr (asc ''Prices fell.'')),
                 (asc ''parserRawText'', JUndefined),
                 (asc ''panelData'', JNull),
                 (asc ''parseSuccess'', JUndefined),
                 (asc ''parseError'',
                    JStr [26080, 27861, 35299, 26512, 74, 83, 79, 78, 32467, 26500])])"
    by (simp add: fullRound_def Let_def sample_configs sample_story sample_parser_timeout
        given_def opt_string_def)
       (simp add: asc_def)
  then show ?thesis by (simp add: result_prop_def own_property_def asc_def)
qed

text \<open>
  With a parser service that answers in prose, the reply keeps the narrative and the
  raw parser text and marks the parse as failed.
\<close>

theorem fullRound_parser_degradation_witness:
  "fst (fullRound (sample_post (Inr (chat_reply no_json_text))) number_to_string sample_body) =
     (200, JObj [(asc ''success'', JBool True),
                 (asc ''narrative'', JStr (asc ''Prices fell.'')),
                 (asc ''parserRawText'', JStr no_json_text),
                 (asc ''panelData'', JNull),
                 (asc ''parseSuccess'', JBool False),
                 (asc ''parseError'',
                    JStr [26080, 27861, 35299, 26512, 74, 83, 79, 78, 32467, 26500])])"
proof -
  let ?post = "sample_post (Inr (chat_reply no_json_text))"
  let ?pres = "parseNarrative ?post number_to_string (the (parserConfig sample_body))
      (roundParserRequest sample_body (asc ''Prices fell.''))"
  have no: "\<not> (\<exists>cap \<in> set (captures no_json_text). block_has_panel cap)"
    unfolding no_json_captures block_has_panel_def
    by (simp add: no_json_parse)
  then have "extractJsonFromResponse no_json_text = None"
    using extract_iff [of no_json_text] by simp
  moreover have "no_json_text \<noteq> []" by (simp add: no_json_text_def asc_def)
  ultimately have pres: "?pres = \<lparr>ps_success = True, ps_rawText = Some no_json_text,
      ps_panelData = None, ps_parseSuccess = Some False, ps_error = None\<rparr>"
    by (simp add: parseNarrative_def sample_parser_request chat_reply_content truthy_def)
  have story: "asc ''Prices fell.'' \<noteq> []" by (simp add: asc_def)
  have failed: "ps_parseSuccess ?pres \<noteq> Some True" by (simp add: pres)
  from fullRound_parser_degradation [OF sample_configs sample_story story refl failed]
  show ?thesis by (simp add: pres opt_string_def)
qed

section \<open>Properties of the narrative prompt\<close>

lemma clean_append:
  assumes "clean a" and "clean b"
    and "a = [] \<or> b = [] \<or> last a = 10 \<or> last a = 32 \<or> hd b = 10 \<or> hd b = 32"
  shows "clean (a @ b)"
proof (rule ccontr)
  assume "\<not> clean (a @ b)"
  then have "sublist schema_request (a @ b)" by (simp add: clean_def)
  with assms(1,2) obtain xs1 xs2 where
    split: "schema_request = xs1 @ xs2" "suffix xs1 a" "prefix xs2 b"
    by (auto simp: clean_def sublist_append)
  have ne1: "xs1 \<noteq> []"
  proof
    assume "xs1 = []"
    with split have "prefix schema_request b" by simp
    then have "sublist schema_request b" by (rule prefix_imp_sublist)
    with assms(2) show False by (simp add: clean_def)
  qed
  have ne2: "xs2 \<noteq> []"
  proof
    assume "xs2 = []"
    with split have "suffix schema_request a" by simp
    then have "sublist schema_request a" by (rule suffix_imp_sublist)
    with assms(1) show False by (simp add: clean_def)
  qed
  from split(2) ne1 have a: "a \<noteq> []" "last a = last xs1"
    by (auto simp: suffix_def)
  from split(3) ne2 have b: "b \<noteq> []" "hd b = hd xs2"
    by (auto simp: prefix_def)
  have "last xs1 \<in> set xs1" "hd xs2 \<in> set xs2"
    using ne1 ne2 by simp_all
  then have "last xs1 \<in> set schema_request" "hd xs2 \<in> set schema_request"
    unfolding split(1) by simp_all
  then have "last xs1 \<noteq> 10" "last xs1 \<noteq> 32" "hd xs2 \<noteq> 10" "hd xs2 \<noteq> 32"
    by (auto simp: schema_request_def)
  with assms(3) a b show False by simp
qed

lemma closed_clean_append:
  "closed_clean a \<Longrightarrow> closed_clean b \<Longrightarrow> closed_clean (a @ b)"
  unfolding closed_clean_def using clean_append [of a b] by (cases "b = []") auto

lemma closed_clean_then_clean:
  "closed_clean a \<Longrightarrow> clean b \<Longrightarrow> clean (a @ b)"
  unfolding closed_clean_def using clean_append [of a b] by auto

lemma clean_Nil: "clean []" "closed_clean []"
  by (simp_all add: clean_def closed_clean_def schema_request_def)

lemma close_clean:
  "clean a \<Longrightarrow> closed_clean (a @ [10])" "clean a \<Longrightarrow> closed_clean (a @ [32])"
  "clean a \<Longrightarrow> closed_clean (a @ [10, 10])"
proof -
  have nl: "clean [10]" "clean [32]" "clean [10, 10]"
    by (simp_all add: clean_def schema_request_def sublist_Cons_right)
  show "clean a \<Longrightarrow> closed_clean (a @ [10])" "clean a \<Longrightarrow> closed_clean (a @ [32])"
    "clean a \<Longrightarrow> closed_clean (a @ [10, 10])"
    using nl by (simp_all add: closed_clean_def clean_append)
qed

lemma no_J_clean: "74 \<notin> set w \<Longrightarrow> clean w"
proof -
  assume no: "74 \<notin> set w"
  have "74 \<in> set schema_request" by (simp add: schema_request_def)
  moreover have "set schema_request \<subseteq> set w" if "sublist schema_request w"
    using that by (rule set_mono_sublist)
  ultimately show "clean w" using no by (auto simp: clean_def)
qed

lemma digits_clean: "clean (nat_to_string n)"
proof (rule no_J_clean)
  have "list_all is_digit (nat_to_string n)" using nat_to_string_digits by simp
  then show "74 \<notin> set (nat_to_string n)" by (auto simp: list_all_iff is_digit_def)
qed

lemma fixed_clean:
  "clean NARRATIVE_INIT_PROMPT" "clean NARRATIVE_ROUND_PROMPT"
  by (rule no_J_clean, simp add: NARRATIVE_INIT_PROMPT_def NARRATIVE_ROUND_PROMPT_def)+

lemma system_clean: "clean NARRATIVE_SYSTEM_PROMPT"
  by (simp add: clean_def schema_request_def NARRATIVE_SYSTEM_PROMPT_def sublist_Cons_right)

text \<open>Texts without the letter J joined to a text that is clean.\<close>

lemma no_J_append: "74 \<notin> set a \<Longrightarrow> 74 \<notin> set b \<Longrightarrow> clean (a @ b)"
  by (rule no_J_clean) simp

lemma digits_no_J: "74 \<notin> set (nat_to_string n)"
proof -
  have "list_all is_digit (nat_to_string n)" using nat_to_string_digits by simp
  then show ?thesis by (auto simp: list_all_iff is_digit_def)
qed

lemma decision_lines_clean:
  "\<forall>d \<in> set ds. clean d \<Longrightarrow> closed_clean (decision_lines i ds)"
proof (induction ds arbitrary: i)
  case Nil
  then show ?case by (simp add: clean_Nil)
next
  case (Cons d ds)
  have "clean (nat_to_string (i + 1) @ [46])"
    by (rule no_J_append) (simp_all add: digits_no_J)
  then have number: "closed_clean ((nat_to_string (i + 1) @ [46]) @ [32])"
    by (rule close_clean)
  have "clean d" using Cons.prems by simp
  then have line: "closed_clean (d @ [10])" by (rule close_clean)
  have rest: "closed_clean (decision_lines (i + 1) ds)"
    using Cons.IH Cons.prems by simp
  have "closed_clean (((nat_to_string (i + 1) @ [46]) @ [32]) @ (d @ [10])
                      @ decision_lines (i + 1) ds)"
    by (rule closed_clean_append [OF number closed_clean_append [OF line rest]])
  then show ?case by simp
qed

lemma heading_clean:
  "closed_clean [35, 32, 31532, 32]"
  "clean [32, 22238, 21512, 25512, 28436]"
  "closed_clean [35, 35, 32, 19978, 22238, 21512, 25968, 20540, 35299, 26512, 32467, 26524,
                 65288, 35831, 22522, 20110, 27492, 25968, 25454, 25512, 28436, 65289, 10]"
  "clean fence"
  "closed_clean [35, 35, 32, 26412, 22238, 21512, 29609, 23478, 20915, 31574, 10]"
  "closed_clean [35, 35, 32, 20027, 25345, 20154, 34917, 20805, 35828, 26126, 10]"
  "closed_clean [35, 35, 32, 25512, 28436, 35201, 27714, 10]"
  "closed_clean [10, 10, 12304, 20027, 25345, 20154, 34917, 20805, 35201, 27714, 12305, 10]"
  by (simp_all add: closed_clean_def fence_def no_J_clean)

lemma user_prompt_clean:
  assumes "\<forall>t \<in> set (caller_texts request). clean t"
  shows "clean (narrativeUserPrompt request)"
proof (cases "n_type request = InitRequest")
  case True
  show ?thesis
  proof (cases "given (n_prompt request)")
    case False
    with True show ?thesis by (simp add: narrativeUserPrompt_def fixed_clean)
  next
    case given: True
    then obtain p where p: "n_prompt request = Some p" by (auto simp: given_def split: option.splits)
    with assms have "clean p" by (simp add: caller_texts_def)
    then have hp: "clean ([10, 10, 12304, 20027, 25345, 20154, 34917, 20805, 35201, 27714,
                            12305, 10] @ p)"
      by (rule closed_clean_then_clean [OF heading_clean(8)])
    have "clean (NARRATIVE_INIT_PROMPT
                 @ ([10, 10, 12304, 20027, 25345, 20154, 34917, 20805, 35201, 27714, 12305, 10]
                    @ p))"
      by (rule clean_append [OF fixed_clean(1) hp]) simp
    with True given p show ?thesis by (simp add: narrativeUserPrompt_def)
  qed
next
  case False
  let ?head = "[35, 32, 31532, 32] @ (nat_to_string (round_or_1 (n_currentRound request))
                @ [32, 22238, 21512, 25512, 28436]) @ [10, 10]"
  let ?previous = "(if given (n_previousParserOutput request) then
             [35, 35, 32, 19978, 22238, 21512, 25968, 20540, 35299, 26512, 32467, 26524,
              65288, 35831, 22522, 20110, 27492, 25968, 25454, 25512, 28436, 65289, 10]
             @ fence @ [10] @ the (n_previousParserOutput request) @ [10] @ fence @ [10, 10]
           else [])"
  let ?decisions = "(case n_playerDecisions request of
             None \<Rightarrow> []
           | Some ds \<Rightarrow>
               if ds = [] then []
               else [35, 35, 32, 26412, 22238, 21512, 29609, 23478, 20915, 31574, 10]
                    @ decision_lines 0 ds @ [10])"
  let ?host = "(if given (n_prompt request) then
             [35, 35, 32, 20027, 25345, 20154, 34917, 20805, 35828, 26126, 10]
             @ the (n_prompt request) @ [10, 10]
           else [])"
  let ?tail = "[35, 35, 32, 25512, 28436, 35201, 27714, 10] @ NARRATIVE_ROUND_PROMPT"
  have shape: "narrativeUserPrompt request = ?head @ ?previous @ ?decisions @ ?host @ ?tail"
    using False by (simp add: narrativeUserPrompt_def)
  have "clean (nat_to_string (round_or_1 (n_currentRound request))
               @ [32, 22238, 21512, 25512, 28436])"
    by (rule clean_append [OF digits_clean heading_clean(2)]) simp
  then have "closed_clean ((nat_to_string (round_or_1 (n_currentRound request))
               @ [32, 22238, 21512, 25512, 28436]) @ [10, 10])"
    by (rule close_clean)
  then have head: "closed_clean ?head"
    by (rule closed_clean_append [OF heading_clean(1)])
  have previous: "closed_clean ?previous"
  proof (cases "given (n_previousParserOutput request)")
    case False
    then show ?thesis by (simp add: clean_Nil)
  next
    case True
    then obtain p where p: "n_previousParserOutput request = Some p"
      by (auto simp: given_def split: option.splits)
    with assms have "clean p" by (simp add: caller_texts_def)
    then have body: "closed_clean (p @ [10])" by (rule close_clean)
    have fences: "closed_clean (fence @ [10])" "closed_clean (fence @ [10, 10])"
      by (rule close_clean, rule heading_clean)+
    have "closed_clean
        ([35, 35, 32, 19978, 22238, 21512, 25968, 20540, 35299, 26512, 32467, 26524,
          65288, 35831, 22522, 20110, 27492, 25968, 25454, 25512, 28436, 65289, 10]
         @ (fence @ [10]) @ (p @ [10]) @ (fence @ [10, 10]))"
      by (rule closed_clean_append [OF heading_clean(3)
            closed_clean_append [OF fences(1) closed_clean_append [OF body fences(2)]]])
    with True p show ?thesis by simp
  qed
  have decisions: "closed_clean ?decisions"
  proof (cases "n_playerDecisions request")
    case None
    then show ?thesis by (simp add: clean_Nil)
  next
    case (Some ds)
    with assms have "\<forall>d \<in> set ds. clean d" by (simp add: caller_texts_def)
    then have lines: "closed_clean (decision_lines 0 ds)" by (rule decision_lines_clean)
    have blank: "closed_clean ([] @ [10])" by (rule close_clean) (rule clean_Nil)
    have "closed_clean
        ([35, 35, 32, 26412, 22238, 21512, 29609, 23478, 20915, 31574, 10]
         @ decision_lines 0 ds @ ([] @ [10]))"
      by (rule closed_clean_append [OF heading_clean(5) closed_clean_append [OF lines blank]])
    with Some show ?thesis by (simp add: clean_Nil)
  qed
  have host: "closed_clean ?host"
  proof (cases "given (n_prompt request)")
    case False
    then show ?thesis by (simp add: clean_Nil)
  next
    case True
    then obtain p where p: "n_prompt request = Some p"
      by (auto simp: given_def split: option.splits)
    with assms have "clean p" by (simp add: caller_texts_def)
    then have "closed_clean (p @ [10, 10])" by (rule close_clean)
    then have "closed_clean
        ([35, 35, 32, 20027, 25345, 20154, 34917, 20805, 35828, 26126, 10] @ (p @ [10, 10]))"
      by (rule closed_clean_append [OF heading_clean(6)])
    with True p show ?thesis by simp
  qed
  have tail: "clean ?tail"
    by (rule closed_clean_then_clean [OF heading_clean(7) fixed_clean(2)])
  have "closed_clean (?head @ ?previous @ ?decisions @ ?host)"
    by (rule closed_clean_append [OF head
          closed_clean_append [OF previous closed_clean_append [OF decisions host]]])
  then have "clean ((?head @ ?previous @ ?decisions @ ?host) @ ?tail)"
    using tail by (rule closed_clean_then_clean)
  then show ?thesis unfolding shape by simp
qed

lemma parser_prompts_request:
  "sublist schema_request PARSER_PROMPT" "sublist schema_request PARSER_INIT_PROMPT"
proof -
  have "PARSER_PROMPT = take 50 PARSER_PROMPT @ schema_request @ drop 60 PARSER_PROMPT"
    by (simp add: PARSER_PROMPT_def schema_request_def)
  then show "sublist schema_request PARSER_PROMPT"
    using sublist_appendI [of schema_request "take 50 PARSER_PROMPT" "drop 60 PARSER_PROMPT"]
    by simp
  have "PARSER_INIT_PROMPT =
          take 19 PARSER_INIT_PROMPT @ schema_request @ drop 29 PARSER_INIT_PROMPT"
    by (simp add: PARSER_INIT_PROMPT_def schema_request_def)
  then show "sublist schema_request PARSER_INIT_PROMPT"
    using sublist_appendI
      [of schema_request "take 19 PARSER_INIT_PROMPT" "drop 29 PARSER_INIT_PROMPT"]
    by simp
qed

lemma clean_excludes:
  assumes "clean w"
  shows "\<not> sublist PARSER_PROMPT w" "\<not> sublist PARSER_INIT_PROMPT w"
  using assms parser_prompts_request sublist_order.order_trans
  unfolding clean_def by blast+

text \<open>
  Claim C9, amended. \<open>generateNarrative\<close> sends \<open>NARRATIVE_SYSTEM_PROMPT\<close> as the system
  message, and its own contribution to the user message (the fixed init or round
  prompt and the headings) holds no request for structured output. Whenever none of the
  caller-supplied texts (extra prompt, parser output of the last round, player
  decisions) contains the schema-request sentence, neither message contains it, and so
  neither contains \<open>PARSER_PROMPT\<close> or \<open>PARSER_INIT_PROMPT\<close>.
\<close>

theorem narrative_prompt_purity:
  assumes "\<forall>t \<in> set (caller_texts request). \<not> sublist schema_request t"
  shows "system_message (narrativeHttpRequest config request) = NARRATIVE_SYSTEM_PROMPT
         \<and> \<not> sublist schema_request (system_message (narrativeHttpRequest config request))
         \<and> \<not> sublist schema_request (user_message (narrativeHttpRequest config request))
         \<and> \<not> sublist PARSER_PROMPT (system_message (narrativeHttpRequest config request))
         \<and> \<not> sublist PARSER_PROMPT (user_message (narrativeHttpRequest config request))
         \<and> \<not> sublist PARSER_INIT_PROMPT (system_message (narrativeHttpRequest config request))
         \<and> \<not> sublist PARSER_INIT_PROMPT (user_message (narrativeHttpRequest config request))"
proof -
  have sys: "system_message (narrativeHttpRequest config request) = NARRATIVE_SYSTEM_PROMPT"
    and usr: "user_message (narrativeHttpRequest config request) = narrativeUserPrompt request"
    by (simp_all add: narrativeHttpRequest_def)
  have "clean (narrativeUserPrompt request)"
    using assms by (intro user_prompt_clean) (simp add: clean_def)
  then show ?thesis
    unfolding sys usr using system_clean clean_excludes by (simp add: clean_def)
qed

text \<open>
  Claim C9 as stated fails for a request whose extra prompt is the parser prompt itself:
  the caller's text is copied into the user message as it is.
\<close>

theorem narrative_prompt_pasted_counterexample:
  "sublist PARSER_PROMPT
     (user_message (narrativeHttpRequest (the (narrativeConfig sample_body)) pasted_request))"
proof -
  have "PARSER_PROMPT \<noteq> []" by (simp add: PARSER_PROMPT_def)
  then have "user_message (narrativeHttpRequest (the (narrativeConfig sample_body))
                 pasted_request) =
        (NARRATIVE_INIT_PROMPT
         @ [10, 10, 12304, 20027, 25345, 20154, 34917, 20805, 35201, 27714, 12305, 10])
        @ PARSER_PROMPT"
    by (simp add: narrativeHttpRequest_def narrativeUserPrompt_def pasted_request_def given_def)
  then show ?thesis by (simp only: sublist_append_leftI)
qed

text \<open>
  The round request of the sample turn has one caller-supplied text, a player decision,
  and its prompt contains neither parser prompt.
\<close>

theorem narrative_prompt_purity_witness:
  "caller_texts (roundNarrativeRequest sample_body) = [asc ''A cuts prices'']
   \<and> \<not> sublist schema_request (asc ''A cuts prices'')
   \<and> system_message (narrativeHttpRequest (the (narrativeConfig sample_body))
                       (roundNarrativeRequest sample_body)) = NARRATIVE_SYSTEM_PROMPT
   \<and> \<not> sublist PARSER_PROMPT
          (user_message (narrativeHttpRequest (the (narrativeConfig sample_body))
                           (roundNarrativeRequest sample_body)))
   \<and> \<not> sublist PARSER_INIT_PROMPT
          (user_message (narrativeHttpRequest (the (narrativeConfig sample_body))
                           (roundNarrativeRequest sample_body)))"
proof -
  have texts: "caller_texts (roundNarrativeRequest sample_body) = [asc ''A cuts prices'']"
    by (simp add: caller_texts_def roundNarrativeRequest_def sample_body_def)
  have free: "\<not> sublist schema_request (asc ''A cuts prices'')"
    by (simp add: schema_request_def asc_def sublist_Cons_right)
  have h: "\<forall>t \<in> set (caller_texts (roundNarrativeRequest sample_body)).
             \<not> sublist schema_request t"
    by (simp add: texts free)
  from narrative_prompt_purity [OF h, of "the (narrativeConfig sample_body)"] texts free
  show ?thesis by simp
qed

end
